theory Spec2Isabelle
  imports Complex_Main "HOL-Library.Sublist" "HOL-Library.AList"
begin

section \<open>JavaScript values\<close>

text \<open>
  The lock object is whatever \<^verbatim>\<open>JSON.parse\<close> returned (its static type in
  \<^verbatim>\<open>_isValidLockObject\<close> is \<^verbatim>\<open>any\<close>), so the model keeps JavaScript values
  untyped. An object is the list of its own enumerable properties. An array carries its
  elements and, second, the named properties assigned to it afterwards (an assignment
  \<^verbatim>\<open>a[url] = v\<close> on an array adds such a property). A string is written as the
  sequence of its bytes in UTF-8; the content of a file is a sequence of bytes, and
  \<^verbatim>\<open>TextDecoder\<close> and \<^verbatim>\<open>TextEncoder\<close>, which go from the one to the other, belong
  to the runtime below.
\<close>

type_synonym bytes = string

datatype jsval =
    JNull
  | JBool bool
  | JNumber rat
  | JString string
  | JArray "jsval list" "(string \<times> jsval) list"
  | JObject "(string \<times> jsval) list"

datatype error =
    NotFound
  | PermissionDenied
  | IOError
  | NetworkError
  | SyntaxError
  | LockFileParseError
  | TypeError
  | CompileError
  | FormatError

text \<open>The decimal name of an array index, as \<^verbatim>\<open>Object.entries\<close> reports it.\<close>

fun index_key :: "nat \<Rightarrow> string" where
  "index_key n =
     (if n < 10 then [char_of (48 + n)]
      else index_key (n div 10) @ [char_of (48 + n mod 10)])"

declare index_key.simps [simp del]

definition indexed :: "jsval list \<Rightarrow> (string \<times> jsval) list" where
  "indexed xs = map (\<lambda>i. (index_key i, xs ! i)) [0 ..< length xs]"

text \<open>
  \<^verbatim>\<open>Object.entries(v)\<close>: a \<^verbatim>\<open>TypeError\<close> on \<^verbatim>\<open>null\<close>, nothing for a number or a
  boolean, the characters of a string, the elements and then the named properties of an
  array, the properties of an object.
\<close>

fun Object_entries :: "jsval \<Rightarrow> error + (string \<times> jsval) list" where
  "Object_entries JNull = Inl TypeError"
| "Object_entries (JBool b) = Inr []"
| "Object_entries (JNumber n) = Inr []"
| "Object_entries (JString s) = Inr (indexed (map (\<lambda>c. JString [c]) s))"
| "Object_entries (JArray xs ps) = Inr (indexed xs @ ps)"
| "Object_entries (JObject ps) = Inr ps"

text \<open>
  Property access \<^verbatim>\<open>v[k]\<close>, assignment \<^verbatim>\<open>v[k] = x\<close> and \<^verbatim>\<open>delete v[k]\<close> for a
  key \<open>k\<close> that is no array index, not \<^verbatim>\<open>length\<close> and not an inherited name: the
  keys of the program are plugin URLs and the field name \<^verbatim>\<open>fileName\<close>. Reading a
  property of \<^verbatim>\<open>null\<close> throws; assigning to a property of a primitive throws in a
  module (strict mode).
\<close>

fun js_get :: "jsval \<Rightarrow> string \<Rightarrow> error + jsval option" where
  "js_get JNull k = Inl TypeError"
| "js_get (JObject ps) k = Inr (map_of ps k)"
| "js_get (JArray xs ps) k = Inr (map_of ps k)"
| "js_get v k = Inr None"

fun js_set :: "jsval \<Rightarrow> string \<Rightarrow> jsval \<Rightarrow> error + jsval" where
  "js_set (JObject ps) k x = Inr (JObject (AList.update k x ps))"
| "js_set (JArray xs ps) k x = Inr (JArray xs (AList.update k x ps))"
| "js_set v k x = Inl TypeError"

fun js_delete :: "jsval \<Rightarrow> string \<Rightarrow> error + jsval" where
  "js_delete JNull k = Inl TypeError"
| "js_delete (JObject ps) k = Inr (JObject (AList.delete k ps))"
| "js_delete (JArray xs ps) k = Inr (JArray xs (AList.delete k ps))"
| "js_delete v k = Inr v"

section \<open>The lock file schema\<close>

definition LOCK_FILE_NAME :: string where
  "LOCK_FILE_NAME = ''plugin-lock.json''"

text \<open>
  \<^verbatim>\<open>_isLockObjectEntry = t.isObject({fileName: t.isString(), sha512: t.isString()})\<close>.
  The validator of the typanion library, built without its \<^verbatim>\<open>extra\<close> option, accepts
  a value that is an object (\<^verbatim>\<open>typeof\<close> gives \<^verbatim>\<open>object\<close>, and it is not
  \<^verbatim>\<open>null\<close>), and then goes through the declared keys and the value's own keys: a
  declared key must hold a string, any other key is an extraneous property and fails.
\<close>

definition isString :: "jsval option \<Rightarrow> bool" where
  "isString v = (case v of Some (JString s) \<Rightarrow> True | _ \<Rightarrow> False)"

definition isObject_props :: "(string \<times> jsval) list \<Rightarrow> bool" where
  "isObject_props ps =
     list_all (\<lambda>k. (k = ''fileName'' \<or> k = ''sha512'') \<and> isString (map_of ps k))
       (''fileName'' # ''sha512'' # map fst ps)"

fun isLockObjectEntry :: "jsval \<Rightarrow> bool" where
  "isLockObjectEntry (JObject ps) = isObject_props ps"
| "isLockObjectEntry (JArray xs ps) = isObject_props (indexed xs @ ps)"
| "isLockObjectEntry v = False"

text \<open>The entry that \<^verbatim>\<open>loadFormatterFromUrl\<close> writes after a download.\<close>

definition lock_entry :: "string \<Rightarrow> string \<Rightarrow> jsval" where
  "lock_entry fileName sha = JObject [(''fileName'', JString fileName), (''sha512'', JString sha)]"

text \<open>\<^verbatim>\<open>_isValidLockObject\<close>: every own entry of the value is a lock object entry.\<close>

definition isValidLockObject :: "jsval \<Rightarrow> error + bool" where
  "isValidLockObject lockObject =
     (case Object_entries lockObject of
        Inl e \<Rightarrow> Inl e
      | Inr es \<Rightarrow> Inr (list_all (\<lambda>(key, v). isLockObjectEntry v) es))"

section \<open>Paths\<close>

text \<open>
  An absolute, normalised path is the list of its segments; the root is the empty list.
  \<^verbatim>\<open>resolve\<close> of the standard path module (POSIX) skips empty arguments, restarts at an
  argument that begins with a slash, starts from the working directory when none does,
  and normalises: empty segments and \<^verbatim>\<open>.\<close> vanish, \<^verbatim>\<open>..\<close> drops the segment before
  it and is dropped at the root.
\<close>

type_synonym path = "string list"

fun split_slash :: "string \<Rightarrow> string list" where
  "split_slash [] = [[]]"
| "split_slash (c # cs) =
     (if c = CHR ''/'' then [] # split_slash cs
      else (case split_slash cs of [] \<Rightarrow> [[c]] | s # ss \<Rightarrow> (c # s) # ss))"

definition norm_step :: "string \<Rightarrow> path \<Rightarrow> path" where
  "norm_step s acc =
     (if s = [] \<or> s = ''.'' then acc
      else if s = ''..'' then butlast acc
      else acc @ [s])"

definition resolve_from :: "string \<Rightarrow> path \<Rightarrow> path" where
  "resolve_from s base =
     (if s = [] then base
      else fold norm_step (split_slash s) (if hd s = CHR ''/'' then [] else base))"

definition resolve :: "path \<Rightarrow> string list \<Rightarrow> path" where
  "resolve wd pathSegments = fold resolve_from pathSegments wd"

text \<open>
  \<^verbatim>\<open>basename\<close> (POSIX, no extension argument): the slashes at the end are ignored,
  and the result is what follows the last slash before them.
\<close>

definition basename :: "string \<Rightarrow> string" where
  "basename p = rev (takeWhile (\<lambda>c. c \<noteq> CHR ''/'') (dropWhile (\<lambda>c. c = CHR ''/'') (rev p)))"

section \<open>The world outside the program\<close>

text \<open>
  The file system is a list of nodes by absolute path; the root always is a directory.
  A read of a path listed as unreadable fails with a permission error. The world also
  holds what the network answers for each URL, the next fresh object identity, and the
  trace of every file system call, network request and console message, in order.
\<close>

datatype node = File bytes | Dir

datatype response = Response (status: nat) (body: bytes)

datatype event =
    ReadFile path
  | WriteFile path bytes
  | Mkdir path
  | ReadDir path
  | Remove path
  | Fetch string
  | ConsoleError string
  | ConsoleWarn string
  | ConsoleLog string

record world =
  fs :: "(path \<times> node) list"
  cwd :: path
  unreadable :: "path list"
  remote :: "(string \<times> response) list"
  heap_next :: nat
  trace :: "event list"

definition emit :: "event \<Rightarrow> world \<Rightarrow> world" where
  "emit ev w = w\<lparr>trace := trace w @ [ev]\<rparr>"

definition node_at :: "(path \<times> node) list \<Rightarrow> path \<Rightarrow> node option" where
  "node_at t p = (if p = [] then Some Dir else map_of t p)"

text \<open>\<^verbatim>\<open>Deno.readFile\<close>\<close>

definition read_result :: "world \<Rightarrow> path \<Rightarrow> error + bytes" where
  "read_result w p =
     (if p \<in> set (unreadable w) then Inl PermissionDenied
      else (case node_at (fs w) p of
              None \<Rightarrow> Inl NotFound
            | Some Dir \<Rightarrow> Inl IOError
            | Some (File b) \<Rightarrow> Inr b))"

definition readFile :: "world \<Rightarrow> path \<Rightarrow> (error + bytes) \<times> world" where
  "readFile w p = (read_result w p, emit (ReadFile p) w)"

text \<open>
  \<^verbatim>\<open>Deno.writeFile\<close> creates or replaces a file; it fails on a directory and where the
  parent is no directory.
\<close>

definition write_error :: "(path \<times> node) list \<Rightarrow> path \<Rightarrow> error option" where
  "write_error t p =
     (if node_at t p = Some Dir then Some IOError
      else (case node_at t (butlast p) of
              Some Dir \<Rightarrow> None
            | None \<Rightarrow> Some NotFound
            | Some (File b) \<Rightarrow> Some IOError))"

definition write_fs :: "(path \<times> node) list \<Rightarrow> path \<Rightarrow> bytes \<Rightarrow> (path \<times> node) list" where
  "write_fs t p b = (case write_error t p of None \<Rightarrow> AList.update p (File b) t | Some e \<Rightarrow> t)"

definition writeFile :: "world \<Rightarrow> path \<Rightarrow> bytes \<Rightarrow> (error + unit) \<times> world" where
  "writeFile w p b =
     (case write_error (fs w) p of Some e \<Rightarrow> Inl e | None \<Rightarrow> Inr (),
      emit (WriteFile p b) (w\<lparr>fs := write_fs (fs w) p b\<rparr>))"

text \<open>
  \<^verbatim>\<open>Deno.mkdir(p, { recursive: true })\<close> creates the directory and its missing
  ancestors; it fails when a file is in the way.
\<close>

definition is_file :: "(path \<times> node) list \<Rightarrow> path \<Rightarrow> bool" where
  "is_file t p = (case node_at t p of Some (File b) \<Rightarrow> True | _ \<Rightarrow> False)"

definition make_dirs :: "(path \<times> node) list \<Rightarrow> path \<Rightarrow> (path \<times> node) list" where
  "make_dirs t p = t @ map (\<lambda>q. (q, Dir)) (filter (\<lambda>q. node_at t q = None) (prefixes p))"

definition mkdir :: "world \<Rightarrow> path \<Rightarrow> (error + unit) \<times> world" where
  "mkdir w p =
     (if list_ex (is_file (fs w)) (prefixes p) then (Inl IOError, emit (Mkdir p) w)
      else (Inr (), emit (Mkdir p) (w\<lparr>fs := make_dirs (fs w) p\<rparr>)))"

text \<open>\<^verbatim>\<open>Deno.readDir\<close>: the names directly inside a directory.\<close>

definition dir_entries :: "(path \<times> node) list \<Rightarrow> path \<Rightarrow> string list" where
  "dir_entries t p = remdups (map (\<lambda>(q, n). last q) (filter (\<lambda>(q, n). q \<noteq> [] \<and> butlast q = p) t))"

definition readDir :: "world \<Rightarrow> path \<Rightarrow> (error + string list) \<times> world" where
  "readDir w p =
     (case node_at (fs w) p of
        None \<Rightarrow> Inl NotFound
      | Some (File b) \<Rightarrow> Inl IOError
      | Some Dir \<Rightarrow> Inr (dir_entries (fs w) p),
      emit (ReadDir p) w)"

text \<open>\<^verbatim>\<open>Deno.remove(p, { recursive: true })\<close> removes the node and all below it.\<close>

definition remove :: "world \<Rightarrow> path \<Rightarrow> (error + unit) \<times> world" where
  "remove w p =
     (case node_at (fs w) p of
        None \<Rightarrow> (Inl NotFound, emit (Remove p) w)
      | Some n \<Rightarrow> (Inr (), emit (Remove p) (w\<lparr>fs := filter (\<lambda>(q, n). \<not> prefix p q) (fs w)\<rparr>)))"

text \<open>\<^verbatim>\<open>fetch\<close>: a response of any status, or a rejection when there is no answer.\<close>

definition fetch :: "world \<Rightarrow> string \<Rightarrow> (error + response) \<times> world" where
  "fetch w url =
     (case map_of (remote w) url of None \<Rightarrow> Inl NetworkError | Some r \<Rightarrow> Inr r,
      emit (Fetch url) w)"

definition ok :: "response \<Rightarrow> bool" where
  "ok r = (200 \<le> status r \<and> status r \<le> 299)"

section \<open>The runtime and the plugin host\<close>

text \<open>
  What the program calls and does not define is a parameter of the model: the
  \<^verbatim>\<open>decode\<close> of a UTF-8 \<^verbatim>\<open>TextDecoder\<close> (which drops a byte order mark at the
  start and replaces malformed bytes) and the \<^verbatim>\<open>encode\<close> of a \<^verbatim>\<open>TextEncoder\<close>,
  \<^verbatim>\<open>JSON.parse\<close> (\<open>None\<close> is its \<^verbatim>\<open>SyntaxError\<close>), \<^verbatim>\<open>JSON.stringify\<close> with a
  four-space indent, the \<^verbatim>\<open>pathname\<close> of \<^verbatim>\<open>new URL(url)\<close> (\<open>None\<close> is the
  \<^verbatim>\<open>TypeError\<close> of an invalid URL), the SHA-512 digest in hexadecimal, whether a buffer
  is a module that \<^verbatim>\<open>createFromBuffer\<close> accepts, and what the \<^verbatim>\<open>formatText\<close> of the
  plugin with the given module returns (\<open>None\<close> when it throws).
\<close>

record runtime =
  TextDecoder_decode :: "bytes \<Rightarrow> string"
  TextEncoder_encode :: "string \<Rightarrow> bytes"
  JSON_parse :: "string \<Rightarrow> jsval option"
  JSON_stringify :: "jsval \<Rightarrow> string"
  URL_pathname :: "string \<Rightarrow> string option"
  sha512_hex :: "bytes \<Rightarrow> string"
  wasm_valid :: "bytes \<Rightarrow> bool"
  plugin_formatText :: "bytes \<Rightarrow> path \<Rightarrow> string \<Rightarrow> string option"

text \<open>A Formatter is an object: its identity and the module it was created from.\<close>

datatype formatter = Formatter (ident: nat) (wasm: bytes)

definition createFromBuffer :: "runtime \<Rightarrow> world \<Rightarrow> bytes \<Rightarrow> (error + formatter) \<times> world" where
  "createFromBuffer rt w buffer =
     (if wasm_valid rt buffer
      then (Inr (Formatter (heap_next w) buffer), w\<lparr>heap_next := Suc (heap_next w)\<rparr>)
      else (Inl CompileError, w))"

definition formatText :: "runtime \<Rightarrow> formatter \<Rightarrow> path \<Rightarrow> string \<Rightarrow> error + string" where
  "formatText rt f p text =
     (case plugin_formatText rt (wasm f) p text of None \<Rightarrow> Inl FormatError | Some t \<Rightarrow> Inr t)"

section \<open>The lock store: loading\<close>

text \<open>The body of the \<^verbatim>\<open>try\<close> block of \<^verbatim>\<open>_getLockObject\<close>.\<close>

definition getLockObject_try :: "runtime \<Rightarrow> world \<Rightarrow> path \<Rightarrow> (error + jsval) \<times> world" where
  "getLockObject_try rt w lockFilePath =
     (case readFile w lockFilePath of
        (Inl e, w1) \<Rightarrow> (Inl e, w1)
      | (Inr buffer, w1) \<Rightarrow>
          (case JSON_parse rt (TextDecoder_decode rt buffer) of
             None \<Rightarrow> (Inl SyntaxError, w1)
           | Some lockFileObject \<Rightarrow>
               (case isValidLockObject lockFileObject of
                  Inl e \<Rightarrow> (Inl e, w1)
                | Inr False \<Rightarrow> (Inl LockFileParseError, w1)
                | Inr True \<Rightarrow> (Inr lockFileObject, w1))))"

text \<open>
  \<^verbatim>\<open>_getLockObject\<close>: the \<^verbatim>\<open>catch\<close> reports a parse or schema error on the console
  and returns a new empty object for every error.
\<close>

definition getLockObject :: "runtime \<Rightarrow> world \<Rightarrow> path \<Rightarrow> (error + jsval) \<times> world" where
  "getLockObject rt w lockFilePath =
     (case getLockObject_try rt w lockFilePath of
        (Inr lockFileObject, w1) \<Rightarrow> (Inr lockFileObject, w1)
      | (Inl e, w1) \<Rightarrow>
          (Inr (JObject []),
           if e = SyntaxError \<or> e = LockFileParseError
           then emit (ConsoleError ''Lock file corrupted. Regenerating...'') w1
           else w1))"

text \<open>\<^verbatim>\<open>_urlToFileName\<close> and \<^verbatim>\<open>_hashSha512\<close>\<close>

definition urlToFileName :: "runtime \<Rightarrow> string \<Rightarrow> error + string" where
  "urlToFileName rt url =
     (case URL_pathname rt url of None \<Rightarrow> Inl TypeError | Some pathname \<Rightarrow> Inr (basename pathname))"

definition hashSha512 :: "runtime \<Rightarrow> bytes \<Rightarrow> string" where
  "hashSha512 rt data = sha512_hex rt data"

section \<open>The plugin manager\<close>

text \<open>
  \<^verbatim>\<open>DprintPluginManager\<close>. Its lock object is the result of the load that the
  constructor starts; its formatters are the entries of a \<^verbatim>\<open>Map\<close> by URL. The
  methods run one after the other here: an operation the source does not await
  (\<^verbatim>\<open>Deno.writeFile\<close> of an artifact, \<^verbatim>\<open>Deno.remove\<close>) takes effect where it is
  issued, and its failure does not reach the method that issued it.
\<close>

record manager =
  cacheDir :: string
  lockFilePath :: path
  lockObject :: jsval
  formatters :: "(string \<times> formatter) list"

definition manager_resolve :: "world \<Rightarrow> manager \<Rightarrow> string list \<Rightarrow> path" where
  "manager_resolve w m pathSegments = resolve (cwd w) (cacheDir m # pathSegments)"

definition new_manager :: "runtime \<Rightarrow> world \<Rightarrow> string \<Rightarrow> (error + manager) \<times> world" where
  "new_manager rt w dir =
     (let p = resolve (cwd w) [dir, LOCK_FILE_NAME] in
      case getLockObject rt w p of
        (Inl e, w1) \<Rightarrow> (Inl e, w1)
      | (Inr lock, w1) \<Rightarrow>
          (Inr \<lparr>cacheDir = dir, lockFilePath = p, lockObject = lock, formatters = []\<rparr>, w1))"

definition checksum_warning :: "string \<Rightarrow> string" where
  "checksum_warning fileName =
     ''Checksum mismatch occurred for '' @ [CHR 0x27] @ fileName @ [CHR 0x27]
       @ ''. Redownloading from source...''"

text \<open>
  The \<^verbatim>\<open>try\<close> statement of \<^verbatim>\<open>loadFormatterFromUrl\<close> for a valid lock entry. The
  result \<open>Some r\<close> leaves the method (\<open>Inr\<close> with the formatter, \<open>Inl\<close> with the
  error thrown again); \<open>None\<close> goes on to the download.
\<close>

definition load_cached ::
  "runtime \<Rightarrow> world \<Rightarrow> manager \<Rightarrow> string \<Rightarrow> jsval \<Rightarrow> (error + formatter) option \<times> world \<times> manager" where
  "load_cached rt w m url lockObjectEntry =
     (case js_get lockObjectEntry ''fileName'' of
        Inr (Some (JString entryFileName)) \<Rightarrow>
          (case readFile w (manager_resolve w m [entryFileName]) of
             (Inr buffer, w1) \<Rightarrow>
               if js_get lockObjectEntry ''sha512'' = Inr (Some (JString (hashSha512 rt buffer)))
               then (case createFromBuffer rt w1 buffer of
                       (Inr formatter, w2) \<Rightarrow>
                         (Some (Inr formatter), w2,
                          m\<lparr>formatters := AList.update url formatter (formatters m)\<rparr>)
                     | (Inl e, w2) \<Rightarrow> (Some (Inl e), w2, m))
               else (None, emit (ConsoleWarn (checksum_warning entryFileName)) w1, m)
           | (Inl e, w1) \<Rightarrow>
               if e = NotFound
               then (case js_delete (lockObject m) url of
                       Inr lock \<Rightarrow> (None, w1, m\<lparr>lockObject := lock\<rparr>)
                     | Inl e' \<Rightarrow> (Some (Inl e'), w1, m))
               else (Some (Inl e), w1, m))
      | _ \<Rightarrow> (Some (Inl TypeError), w, m))"

text \<open>The download, from \<^verbatim>\<open>fetch(url)\<close> to the end of the method.\<close>

definition download ::
  "runtime \<Rightarrow> world \<Rightarrow> manager \<Rightarrow> string \<Rightarrow> string \<Rightarrow> (error + formatter) \<times> world \<times> manager" where
  "download rt w m url fileName =
     (case fetch w url of
        (Inl e, w1) \<Rightarrow> (Inl e, w1, m)
      | (Inr response, w1) \<Rightarrow>
          (let buffer = body response in
           case createFromBuffer rt w1 buffer of
             (Inl e, w2) \<Rightarrow> (Inl e, w2, m)
           | (Inr formatter, w2) \<Rightarrow>
               (let m1 = m\<lparr>formatters := AList.update url formatter (formatters m)\<rparr> in
                case js_set (lockObject m1) url (lock_entry fileName (hashSha512 rt buffer)) of
                  Inl e \<Rightarrow> (Inl e, w2, m1)
                | Inr lock \<Rightarrow>
                    (let m2 = m1\<lparr>lockObject := lock\<rparr> in
                     case mkdir w2 (manager_resolve w2 m2 []) of
                       (Inl e, w3) \<Rightarrow> (Inl e, w3, m2)
                     | (Inr u, w3) \<Rightarrow>
                         (Inr formatter,
                          snd (writeFile w3 (manager_resolve w3 m2 [fileName]) buffer),
                          m2)))))"

definition loadFormatterFromUrl ::
  "runtime \<Rightarrow> world \<Rightarrow> manager \<Rightarrow> string \<Rightarrow> (error + formatter) \<times> world \<times> manager" where
  "loadFormatterFromUrl rt w m url =
     (case map_of (formatters m) url of
        Some formatter \<Rightarrow> (Inr formatter, w, m)
      | None \<Rightarrow>
          (case urlToFileName rt url of
             Inl e \<Rightarrow> (Inl e, w, m)
           | Inr fileName \<Rightarrow>
               (case js_get (lockObject m) url of
                  Inl e \<Rightarrow> (Inl e, w, m)
                | Inr None \<Rightarrow> download rt w m url fileName
                | Inr (Some lockObjectEntry) \<Rightarrow>
                    if isLockObjectEntry lockObjectEntry
                    then (case load_cached rt w m url lockObjectEntry of
                            (Some r, w1, m1) \<Rightarrow> (r, w1, m1)
                          | (None, w1, m1) \<Rightarrow> download rt w1 m1 url fileName)
                    else download rt w m url fileName)))"

section \<open>The cache reaper\<close>

text \<open>
  The set \<^verbatim>\<open>filesToKeep\<close> holds the lock file name unless it is to be removed, and
  the \<^verbatim>\<open>fileName\<close> of every entry of the lock object (\<open>None\<close> is \<^verbatim>\<open>undefined\<close>).
\<close>

fun entry_fileNames :: "(string \<times> jsval) list \<Rightarrow> error + jsval option list" where
  "entry_fileNames [] = Inr []"
| "entry_fileNames ((key, entry) # es) =
     (case js_get entry ''fileName'' of
        Inl e \<Rightarrow> Inl e
      | Inr v \<Rightarrow> (case entry_fileNames es of Inl e \<Rightarrow> Inl e | Inr vs \<Rightarrow> Inr (v # vs)))"

definition filesToKeep :: "manager \<Rightarrow> bool \<Rightarrow> error + jsval option list" where
  "filesToKeep m removeLockFile =
     (case Object_entries (lockObject m) of
        Inl e \<Rightarrow> Inl e
      | Inr es \<Rightarrow>
          (case entry_fileNames es of
             Inl e \<Rightarrow> Inl e
           | Inr vs \<Rightarrow> Inr ((if removeLockFile then [] else [Some (JString LOCK_FILE_NAME)]) @ vs)))"

text \<open>The loop over the directory entries.\<close>

fun clean_entries :: "manager \<Rightarrow> jsval option list \<Rightarrow> string list \<Rightarrow> world \<Rightarrow> world" where
  "clean_entries m keep [] w = w"
| "clean_entries m keep (name # names) w =
     (if Some (JString (basename name)) \<in> set keep then clean_entries m keep names w
      else clean_entries m keep names
             (snd (remove (emit (ConsoleLog (''Cleaning up: '' @ name)) w)
                          (manager_resolve w m [name]))))"

definition cleanCacheDir :: "world \<Rightarrow> manager \<Rightarrow> bool \<Rightarrow> (error + unit) \<times> world" where
  "cleanCacheDir w m removeLockFile =
     (case filesToKeep m removeLockFile of
        Inl e \<Rightarrow> (Inl e, w)
      | Inr keep \<Rightarrow>
          (case readDir w (manager_resolve w m []) of
             (Inl e, w1) \<Rightarrow> (Inl e, w1)
           | (Inr names, w1) \<Rightarrow> (Inr (), clean_entries m keep names w1)))"

section \<open>The lock store: persisting\<close>

definition writeLockFile ::
  "runtime \<Rightarrow> world \<Rightarrow> manager \<Rightarrow> formatter option \<Rightarrow> (error + unit) \<times> world" where
  "writeLockFile rt w m jsonFormatter =
     (let jsonText = JSON_stringify rt (lockObject m) in
      case (case jsonFormatter of
              None \<Rightarrow> Inr jsonText
            | Some f \<Rightarrow> formatText rt f (lockFilePath m) jsonText) of
        Inl e \<Rightarrow> (Inl e, w)
      | Inr rendered \<Rightarrow> writeFile w (lockFilePath m) (TextEncoder_encode rt rendered))"

section \<open>Well-formed file systems\<close>

text \<open>
  A file name is a non-empty string without a slash other than \<^verbatim>\<open>.\<close> and \<^verbatim>\<open>..\<close>;
  the paths of a file system consist of file names.
\<close>

definition valid_name :: "string \<Rightarrow> bool" where
  "valid_name s = (s \<noteq> [] \<and> s \<noteq> ''.'' \<and> s \<noteq> ''..'' \<and> CHR ''/'' \<notin> set s)"

definition wf_fs :: "(path \<times> node) list \<Rightarrow> bool" where
  "wf_fs t = list_all (\<lambda>(q, n). list_all valid_name q) t"

section \<open>A sample installation\<close>

text \<open>
  Concrete values on which the theorems below are run: two plugin URLs with the same
  file name, a stand-in runtime (a decoder that drops the byte order mark, a digest that
  prefixes its input, a module check that looks at the first bytes, a parser and a
  printer that know the documents of the samples, where the printer leaves out the named
  properties of an array as \<^verbatim>\<open>JSON.stringify\<close> does, a renderer that ends the text
  with a line feed), a working directory with the cache
  directory \<^verbatim>\<open>.dprint-cache\<close>, and a manager as the constructor leaves it.
\<close>

definition sample_url :: string where
  "sample_url = ''https://plugins.example/json-0.1.wasm''"

definition mirror_url :: string where
  "mirror_url = ''https://mirror.example/old/json-0.1.wasm?v=2''"

definition sample_lock :: jsval where
  "sample_lock = JObject [(sample_url, lock_entry ''json-0.1.wasm'' ''sha512:asm1'')]"

definition nested_lock :: jsval where
  "nested_lock = JObject [(sample_url, lock_entry ''sub/x.wasm'' ''sha512:asm1'')]"

definition sample_parse :: "string \<Rightarrow> jsval option" where
  "sample_parse s =
     (let t = (if s \<noteq> [] \<and> last s = CHR 0x0A then butlast s else s) in
      if t = ''{}'' then Some (JObject [])
      else if t = ''[]'' then Some (JArray [] [])
      else if t = ''5'' then Some (JNumber 5)
      else if t = ''{ sample lock }'' then Some sample_lock
      else if t = ''{ nested lock }'' then Some nested_lock
      else if t = ''{ entry without sha512 }''
        then Some (JObject [(sample_url, JObject [(''fileName'', JString ''json-0.1.wasm'')])])
      else None)"

definition sample_stringify :: "jsval \<Rightarrow> string" where
  "sample_stringify v =
     (if v = sample_lock then ''{ sample lock }''
      else (case v of JArray [] ps \<Rightarrow> ''[]'' | _ \<Rightarrow> ''{}''))"

definition sample_decode :: "bytes \<Rightarrow> string" where
  "sample_decode b = (if take 3 b = [CHR 0xEF, CHR 0xBB, CHR 0xBF] then drop 3 b else b)"

definition sample_pathname :: "string \<Rightarrow> string option" where
  "sample_pathname url =
     (if prefix ''https://'' url
      then Some (takeWhile (\<lambda>c. c \<noteq> CHR ''?'' \<and> c \<noteq> CHR ''#'')
                   (dropWhile (\<lambda>c. c \<noteq> CHR ''/'') (drop 8 url)))
      else None)"

definition sample_rt :: runtime where
  "sample_rt =
     \<lparr>TextDecoder_decode = sample_decode,
      TextEncoder_encode = (\<lambda>s. s),
      JSON_parse = sample_parse,
      JSON_stringify = sample_stringify,
      URL_pathname = sample_pathname,
      sha512_hex = (\<lambda>b. ''sha512:'' @ b),
      wasm_valid = prefix ''asm'',
      plugin_formatText = (\<lambda>code p t. Some (t @ [CHR 0x0A]))\<rparr>"

definition cache_path :: path where
  "cache_path = [''work'', ''.dprint-cache'']"

definition sample_world :: "(path \<times> node) list \<Rightarrow> (string \<times> response) list \<Rightarrow> world" where
  "sample_world t net =
     \<lparr>fs = t, cwd = [''work''], unreadable = [], remote = net, heap_next = 0, trace = []\<rparr>"

definition sample_manager :: "jsval \<Rightarrow> manager" where
  "sample_manager lock =
     \<lparr>cacheDir = ''.dprint-cache'', lockFilePath = cache_path @ [LOCK_FILE_NAME],
      lockObject = lock, formatters = []\<rparr>"

definition fs_empty :: "(path \<times> node) list" where
  "fs_empty = [([''work''], Dir), (cache_path, Dir)]"

definition fs_locked :: "bytes \<Rightarrow> (path \<times> node) list" where
  "fs_locked txt = [([''work''], Dir), (cache_path, Dir),
                    (cache_path @ [''plugin-lock.json''], File txt)]"

definition fs_cached :: "bytes \<Rightarrow> (path \<times> node) list" where
  "fs_cached b = [([''work''], Dir), (cache_path, Dir),
                  (cache_path @ [''json-0.1.wasm''], File b)]"

definition fs_orphan :: "(path \<times> node) list" where
  "fs_orphan = [([''work''], Dir), (cache_path, Dir),
                (cache_path @ [''plugin-lock.json''], File ''{ sample lock }''),
                (cache_path @ [''json-0.1.wasm''], File ''asm1''),
                (cache_path @ [''old-0.0.wasm''], File ''asm0'')]"

definition fs_nested :: "(path \<times> node) list" where
  "fs_nested = [([''work''], Dir), (cache_path, Dir),
                (cache_path @ [''plugin-lock.json''], File ''{ nested lock }''),
                (cache_path @ [''sub''], Dir),
                (cache_path @ [''sub'', ''x.wasm''], File ''asm1'')]"

section \<open>Paths and file names\<close>

lemma split_slash_plain: "CHR ''/'' \<notin> set s \<Longrightarrow> split_slash s = [s]"
  by (induction s) auto

lemma basename_no_slash: "CHR ''/'' \<notin> set (basename p)"
  unfolding basename_def using set_takeWhileD by fastforce

lemma resolve_valid_name:
  assumes "valid_name f"
  shows "manager_resolve w m [f] = manager_resolve w m [] @ [f]"
proof -
  from assms have "f \<noteq> []" "CHR ''/'' \<notin> set f" by (simp_all add: valid_name_def)
  then have "hd f \<noteq> CHR ''/''" by (cases f) auto
  with assms show ?thesis
    by (simp add: manager_resolve_def resolve_def resolve_from_def split_slash_plain
        norm_step_def valid_name_def)
qed

lemma basename_valid_name:
  assumes "valid_name f"
  shows "basename f = f"
proof -
  from assms have ne: "rev f \<noteq> []" and ns: "\<forall>c \<in> set (rev f). c \<noteq> CHR ''/''"
    by (auto simp: valid_name_def)
  from ne ns have d: "dropWhile (\<lambda>c. c = CHR ''/'') (rev f) = rev f"
    by (cases "rev f") auto
  from ns have t: "takeWhile (\<lambda>c. c \<noteq> CHR ''/'') (rev f) = rev f"
    by (subst takeWhile_eq_all_conv) blast
  show ?thesis unfolding basename_def d t by simp
qed

lemma manager_resolve_emit [simp]: "manager_resolve (emit ev w) m ps = manager_resolve w m ps"
  by (simp add: manager_resolve_def emit_def)

section \<open>File system operations\<close>

lemma cwd_emit [simp]: "cwd (emit ev w) = cwd w"
  by (simp add: emit_def)

lemma fs_emit [simp]: "fs (emit ev w) = fs w"
  by (simp add: emit_def)

lemma read_result_cases:
  "read_result w p = Inl e \<Longrightarrow> e = PermissionDenied \<or> e = NotFound \<or> e = IOError"
  by (auto simp: read_result_def split: if_splits option.splits node.splits)

lemma node_at_make_dirs_other:
  "q \<notin> set (prefixes p) \<Longrightarrow> node_at (make_dirs t p) q = node_at t q"
  by (auto simp: node_at_def make_dirs_def map_add_def map_of_map_restrict restrict_map_def
      split: option.splits)

lemma node_at_make_dirs_self:
  assumes "\<not> list_ex (is_file t) (prefixes p)"
  shows "node_at (make_dirs t p) p = Some Dir"
proof (cases "node_at t p")
  case None
  then show ?thesis
    by (auto simp: node_at_def make_dirs_def map_add_def map_of_map_restrict restrict_map_def
        split: option.splits if_splits)
next
  case (Some n)
  have "\<not> is_file t p" using assms by (auto simp: list_ex_iff)
  with Some have "n = Dir" by (cases n) (auto simp: is_file_def)
  with Some show ?thesis
    by (auto simp: node_at_def make_dirs_def map_add_def split: option.splits if_splits)
qed

lemma is_file_make_dirs: "is_file (make_dirs t p) q = is_file t q"
  by (auto simp: is_file_def node_at_def make_dirs_def map_add_def map_of_map_restrict
      restrict_map_def split: option.splits node.splits)

lemma node_at_write_fs_other: "q \<noteq> p \<Longrightarrow> node_at (write_fs t p b) q = node_at t q"
  by (simp add: write_fs_def node_at_def update_conv' split: option.splits)

lemma node_at_write_fs_self:
  assumes "node_at t p \<noteq> Some Dir" "node_at t (butlast p) = Some Dir"
  shows "node_at (write_fs t p b) p = Some (File b)"
proof -
  have "p \<noteq> []" using assms(1) by (auto simp: node_at_def)
  moreover have "write_error t p = None" using assms by (simp add: write_error_def)
  ultimately show ?thesis by (simp add: write_fs_def node_at_def update_conv')
qed

text \<open>The artifact is in the cache directory after the directory is made and the file written.\<close>

lemma written_artifact:
  assumes "\<not> list_ex (is_file t) (prefixes d)"
    and "node_at t (d @ [f]) \<noteq> Some Dir"
  shows "node_at (write_fs (make_dirs t d) (d @ [f]) b) (d @ [f]) = Some (File b)"
proof -
  have "d @ [f] \<notin> set (prefixes d)" by (auto simp: in_set_prefixes prefix_def)
  then have "node_at (make_dirs t d) (d @ [f]) = node_at t (d @ [f])"
    by (rule node_at_make_dirs_other)
  then show ?thesis
    using assms node_at_make_dirs_self[OF assms(1)] by (intro node_at_write_fs_self) auto
qed

lemma map_of_filter_keys:
  "map_of (filter (\<lambda>(q, n). P q) t) k = (if P k then map_of t k else None)"
  by (induction t) auto

lemma cwd_remove [simp]: "cwd (snd (remove w p)) = cwd w"
  by (simp add: remove_def emit_def split: option.splits)

lemma manager_resolve_remove [simp]:
  "manager_resolve (snd (remove w p)) m ps = manager_resolve w m ps"
  by (simp add: manager_resolve_def)

lemma fs_remove:
  "fs (snd (remove w p)) =
     (if node_at (fs w) p = None then fs w else filter (\<lambda>(q, n). \<not> prefix p q) (fs w))"
  by (simp add: remove_def emit_def split: option.splits)

lemma removed_key_gone: "p \<notin> fst ` set (fs (snd (remove w p)))"
proof (cases "node_at (fs w) p = None")
  case True
  then have "map_of (fs w) p = None" by (auto simp: node_at_def split: if_splits)
  then show ?thesis using True by (simp add: fs_remove map_of_eq_None_iff)
next
  case False
  then show ?thesis by (auto simp: fs_remove)
qed

lemma dir_entries_iff: "n \<in> set (dir_entries t d) \<longleftrightarrow> d @ [n] \<in> fst ` set t"
proof
  assume "n \<in> set (dir_entries t d)"
  then obtain q v where "(q, v) \<in> set t" "q \<noteq> []" "butlast q = d" "last q = n"
    by (auto simp: dir_entries_def)
  then have "q = d @ [n]" using append_butlast_last_id by fastforce
  with \<open>(q, v) \<in> set t\<close> show "d @ [n] \<in> fst ` set t" by force
next
  assume "d @ [n] \<in> fst ` set t"
  then obtain v where "(d @ [n], v) \<in> set t" by auto
  then show "n \<in> set (dir_entries t d)"
    by (force simp: dir_entries_def)
qed

lemma wf_fs_entry:
  assumes "wf_fs t" "d @ [n] \<in> fst ` set t"
  shows "valid_name n"
proof -
  from assms(2) obtain v where "(d @ [n], v) \<in> set t" by auto
  with assms(1) have "list_all valid_name (d @ [n])"
    unfolding wf_fs_def list_all_iff by fastforce
  then show ?thesis by simp
qed

section \<open>Properties of JavaScript objects\<close>

lemma js_set_after_delete:
  assumes "js_get v k = Inr (Some e)"
  shows "\<exists>v1 v2. js_delete v k = Inr v1 \<and> js_get v1 k = Inr None
           \<and> js_set v1 k x = Inr v2 \<and> js_get v2 k = Inr (Some x)"
  using assms by (cases v) (auto simp: delete_conv' update_conv')

lemma js_set_present:
  assumes "js_get v k = Inr (Some e)"
  shows "\<exists>v2. js_set v k x = Inr v2 \<and> js_get v2 k = Inr (Some x)"
  using assms by (cases v) (auto simp: update_conv')

text \<open>
  What the schema accepts of an object: both fields hold strings and there is no other
  field. A wrong type, a missing field and an extra field all fail.
\<close>

lemma isString_iff: "isString v \<longleftrightarrow> (\<exists>s. v = Some (JString s))"
  by (auto simp: isString_def split: option.splits jsval.splits)

lemma isLockObjectEntry_object:
  "isLockObjectEntry (JObject ps) \<longleftrightarrow>
     (\<exists>f. map_of ps ''fileName'' = Some (JString f))
   \<and> (\<exists>h. map_of ps ''sha512'' = Some (JString h))
   \<and> fst ` set ps \<subseteq> {''fileName'', ''sha512''}"
  by (auto simp: isObject_props_def list_all_iff isString_iff)

lemma lock_entry_valid: "isLockObjectEntry (lock_entry f h)"
  by (simp add: lock_entry_def isObject_props_def isString_def)

lemma entry_fileNames_set:
  "entry_fileNames es = Inr vs \<Longrightarrow>
     set vs = {v. \<exists>(k, e) \<in> set es. js_get e ''fileName'' = Inr v}"
proof (induction es arbitrary: vs)
  case Nil
  then show ?case by simp
next
  case (Cons a es)
  obtain key entry where a: "a = (key, entry)" by (cases a)
  from Cons.prems a obtain v vs' where
    v: "js_get entry ''fileName'' = Inr v" and vs': "entry_fileNames es = Inr vs'" and "vs = v # vs'"
    by (auto split: sum.splits)
  with Cons.IH[OF vs'] a show ?case by auto
qed

section \<open>The download and the in-memory cache\<close>

lemma download_ok:
  assumes "map_of (remote w) url = Some r"
    and "wasm_valid rt (body r)"
    and "js_set (lockObject m) url (lock_entry fileName (hashSha512 rt (body r))) = Inr lock"
    and "\<not> list_ex (is_file (fs w)) (prefixes (manager_resolve w m []))"
  shows "download rt w m url fileName =
     (Inr (Formatter (heap_next w) (body r)),
      w\<lparr>fs := write_fs (make_dirs (fs w) (manager_resolve w m []))
                (manager_resolve w m [fileName]) (body r),
        heap_next := Suc (heap_next w),
        trace := trace w @ [Fetch url, Mkdir (manager_resolve w m []),
                            WriteFile (manager_resolve w m [fileName]) (body r)]\<rparr>,
      m\<lparr>formatters := AList.update url (Formatter (heap_next w) (body r)) (formatters m),
        lockObject := lock\<rparr>)"
  using assms
  by (auto simp: download_def fetch_def createFromBuffer_def mkdir_def writeFile_def emit_def
      manager_resolve_def Let_def split: option.splits)

text \<open>A fetch that is rejected, and a body that is no module, end the call with the error.\<close>

lemma fetch_rejection_propagates:
  assumes "map_of (remote w) url = None"
  shows "download rt w m url fileName = (Inl NetworkError, emit (Fetch url) w, m)"
  using assms by (simp add: download_def fetch_def)

lemma rejected_module_propagates:
  assumes "map_of (remote w) url = Some r" and "\<not> wasm_valid rt (body r)"
  shows "download rt w m url fileName = (Inl CompileError, emit (Fetch url) w, m)"
  using assms by (simp add: download_def fetch_def createFromBuffer_def)

lemma download_success:
  "download rt w m url fileName = (Inr f, w', m') \<Longrightarrow> map_of (formatters m') url = Some f"
  by (auto simp: download_def Let_def update_conv' split: prod.splits sum.splits)

lemma load_cached_success:
  "load_cached rt w m url e = (Some (Inr f), w', m') \<Longrightarrow> map_of (formatters m') url = Some f"
  by (auto simp: load_cached_def Let_def update_conv'
      split: prod.splits sum.splits option.splits jsval.splits if_splits)

lemma loadFormatterFromUrl_success:
  "loadFormatterFromUrl rt w m url = (Inr f, w', m') \<Longrightarrow> map_of (formatters m') url = Some f"
  by (auto simp: loadFormatterFromUrl_def
      dest: download_success load_cached_success
      split: prod.splits sum.splits option.splits if_splits)

section \<open>The loop of the reaper\<close>

lemma cwd_clean_entries [simp]: "cwd (clean_entries m keep names w) = cwd w"
  by (induction names arbitrary: w) auto

lemma fs_clean_entries_subset: "set (fs (clean_entries m keep names w)) \<subseteq> set (fs w)"
proof (induction names arbitrary: w)
  case Nil
  then show ?case by simp
next
  case (Cons name names)
  let ?w2 = "snd (remove (emit (ConsoleLog (''Cleaning up: '' @ name)) w) (manager_resolve w m [name]))"
  have "set (fs ?w2) \<subseteq> set (fs w)" by (auto simp: fs_remove)
  with Cons.IH[of ?w2] Cons.IH[of w] show ?case by auto
qed

lemma clean_entries_removed:
  assumes "n \<in> set names" "Some (JString (basename n)) \<notin> set keep"
  shows "manager_resolve w m [n] \<notin> fst ` set (fs (clean_entries m keep names w))"
  using assms
proof (induction names arbitrary: w)
  case Nil
  then show ?case by simp
next
  case (Cons name names)
  let ?w2 = "snd (remove (emit (ConsoleLog (''Cleaning up: '' @ name)) w) (manager_resolve w m [name]))"
  have r: "manager_resolve ?w2 m [n] = manager_resolve w m [n]"
    by simp
  show ?case
  proof (cases "n = name")
    case True
    have "manager_resolve w m [name] \<notin> fst ` set (fs ?w2)"
      using removed_key_gone[of "manager_resolve w m [name]" "emit (ConsoleLog (''Cleaning up: '' @ name)) w"]
      by simp
    moreover have "set (fs (clean_entries m keep names ?w2)) \<subseteq> set (fs ?w2)"
      by (rule fs_clean_entries_subset)
    ultimately show ?thesis using True Cons.prems by auto
  next
    case False
    with Cons.prems have "n \<in> set names" by simp
    from Cons.IH[OF this Cons.prems(2), of w] Cons.IH[OF this Cons.prems(2), of ?w2] r
    show ?thesis by auto
  qed
qed

lemma clean_entries_kept:
  assumes "\<forall>n \<in> set names. Some (JString (basename n)) \<notin> set keep
             \<longrightarrow> \<not> prefix (manager_resolve w m [n]) q"
  shows "map_of (fs (clean_entries m keep names w)) q = map_of (fs w) q"
  using assms
proof (induction names arbitrary: w)
  case Nil
  then show ?case by simp
next
  case (Cons name names)
  let ?w2 = "snd (remove (emit (ConsoleLog (''Cleaning up: '' @ name)) w) (manager_resolve w m [name]))"
  have rest: "\<forall>n \<in> set names. Some (JString (basename n)) \<notin> set keep
             \<longrightarrow> \<not> prefix (manager_resolve w m [n]) q"
    using Cons.prems by simp
  show ?case
  proof (cases "Some (JString (basename name)) \<in> set keep")
    case True
    have "map_of (fs (clean_entries m keep names w)) q = map_of (fs w) q"
      using rest by (rule Cons.IH)
    with True show ?thesis by simp
  next
    case False
    with Cons.prems have np: "\<not> prefix (manager_resolve w m [name]) q" by simp
    have one: "map_of (fs ?w2) q = map_of (fs w) q"
      using np by (simp add: fs_remove map_of_filter_keys)
    have "\<forall>n \<in> set names. Some (JString (basename n)) \<notin> set keep
             \<longrightarrow> \<not> prefix (manager_resolve ?w2 m [n]) q"
      using rest by simp
    then have "map_of (fs (clean_entries m keep names ?w2)) q = map_of (fs ?w2) q"
      by (rule Cons.IH)
    with one False show ?thesis by simp
  qed
qed

section \<open>Evaluating the samples\<close>

lemmas sample_defs = sample_url_def mirror_url_def sample_lock_def nested_lock_def
  sample_parse_def sample_stringify_def sample_decode_def sample_pathname_def sample_rt_def
  cache_path_def
  sample_world_def sample_manager_def fs_empty_def fs_locked_def fs_cached_def fs_orphan_def
  fs_nested_def lock_entry_def LOCK_FILE_NAME_def

lemmas run_defs = loadFormatterFromUrl_def urlToFileName_def load_cached_def download_def
  readFile_def read_result_def fetch_def createFromBuffer_def mkdir_def make_dirs_def
  writeFile_def write_fs_def write_error_def node_at_def is_file_def emit_def
  manager_resolve_def resolve_def resolve_from_def norm_step_def basename_def hashSha512_def
  isObject_props_def isString_def Let_def

section \<open>Loading the lock file\<close>

text \<open>
  Claim C2 asks that every malformed lock file loads as the empty lock object. The
  validation goes through the entries of whatever was parsed and never asks whether it
  is an object, though its result type says so and the validator of an entry does ask.
  A lock file that holds the number \<^verbatim>\<open>5\<close>, or the empty array, has no entry that
  could fail: \<^verbatim>\<open>_getLockObject\<close> returns the number, or the array, as the lock
  object, and nothing is reported. With the number as lock object, the next download ends
  with a \<^verbatim>\<open>TypeError\<close> at the assignment of the new entry.
\<close>

theorem non_object_document_loaded_as_lock:
  "read_result (sample_world (fs_locked ''5'') [(sample_url, Response 200 ''asm1'')])
      (cache_path @ [LOCK_FILE_NAME]) = Inr ''5''
   \<and> getLockObject sample_rt (sample_world (fs_locked ''5'') [(sample_url, Response 200 ''asm1'')])
        (cache_path @ [LOCK_FILE_NAME])
     = (Inr (JNumber 5),
        (sample_world (fs_locked ''5'') [(sample_url, Response 200 ''asm1'')])
          \<lparr>trace := [ReadFile (cache_path @ [LOCK_FILE_NAME])]\<rparr>)
   \<and> JNumber 5 \<noteq> JObject []
   \<and> new_manager sample_rt (sample_world (fs_locked ''5'') [(sample_url, Response 200 ''asm1'')])
        ''.dprint-cache''
     = (Inr (sample_manager (JNumber 5)),
        (sample_world (fs_locked ''5'') [(sample_url, Response 200 ''asm1'')])
          \<lparr>trace := [ReadFile (cache_path @ [LOCK_FILE_NAME])]\<rparr>)
   \<and> fst (loadFormatterFromUrl sample_rt
        ((sample_world (fs_locked ''5'') [(sample_url, Response 200 ''asm1'')])
          \<lparr>trace := [ReadFile (cache_path @ [LOCK_FILE_NAME])]\<rparr>)
        (sample_manager (JNumber 5)) sample_url) = Inl TypeError
   \<and> fst (getLockObject sample_rt (sample_world (fs_locked ''[]'') []) (cache_path @ [LOCK_FILE_NAME]))
     = Inr (JArray [] [])
   \<and> JArray [] [] \<noteq> JObject []"
proof -
  let ?w = "sample_world (fs_locked ''5'') [(sample_url, Response 200 ''asm1'')]"
  let ?p = "cache_path @ [LOCK_FILE_NAME]"
  have rd: "read_result ?w ?p = Inr ''5''"
    by (simp add: read_result_def node_at_def sample_defs)
  have ld: "getLockObject sample_rt ?w ?p = (Inr (JNumber 5), ?w\<lparr>trace := [ReadFile ?p]\<rparr>)"
    by (simp add: getLockObject_def getLockObject_try_def isValidLockObject_def run_defs
        sample_defs)
  have nm: "new_manager sample_rt ?w ''.dprint-cache''
      = (Inr (sample_manager (JNumber 5)), ?w\<lparr>trace := [ReadFile ?p]\<rparr>)"
    by (simp add: new_manager_def getLockObject_def getLockObject_try_def isValidLockObject_def
        run_defs sample_defs)
  have dl: "fst (loadFormatterFromUrl sample_rt (?w\<lparr>trace := [ReadFile ?p]\<rparr>)
        (sample_manager (JNumber 5)) sample_url) = Inl TypeError"
    by (simp add: run_defs sample_defs)
  have ar: "fst (getLockObject sample_rt (sample_world (fs_locked ''[]'') []) ?p) = Inr (JArray [] [])"
    by (simp add: getLockObject_def getLockObject_try_def isValidLockObject_def indexed_def
        run_defs sample_defs)
  from rd ld nm dl ar show ?thesis by simp
qed

text \<open>
  What does load as the empty lock object: a readable file whose decoded content is not
  JSON, or is the JSON \<^verbatim>\<open>null\<close>, on which the validation throws, or parses to a value
  with an entry that is not a lock object entry (not an object, a field that is missing
  or not a string, or a field beyond \<^verbatim>\<open>fileName\<close> and \<^verbatim>\<open>sha512\<close>). No error leaves
  \<^verbatim>\<open>_getLockObject\<close>, and the file system is as before.
\<close>

lemma failing_lock_file_loads_empty:
  assumes "read_result w p = Inr buffer"
    and "JSON_parse rt (TextDecoder_decode rt buffer) = None
       \<or> JSON_parse rt (TextDecoder_decode rt buffer) = Some JNull
       \<or> (\<exists>v es k e. JSON_parse rt (TextDecoder_decode rt buffer) = Some v
             \<and> Object_entries v = Inr es \<and> (k, e) \<in> set es \<and> \<not> isLockObjectEntry e)"
  shows "fst (getLockObject rt w p) = Inr (JObject [])
       \<and> fs (snd (getLockObject rt w p)) = fs w"
  using assms
  by (auto simp: getLockObject_def getLockObject_try_def readFile_def isValidLockObject_def
           list_all_iff split: prod.splits sum.splits option.splits bool.splits)

lemma entry_without_sha512_loads_empty:
  "fst (getLockObject sample_rt (sample_world (fs_locked ''{ entry without sha512 }'') [])
            (cache_path @ [LOCK_FILE_NAME])) = Inr (JObject [])"
  by (simp add: getLockObject_def getLockObject_try_def isValidLockObject_def run_defs
      sample_defs)

text \<open>
  Claim C3 says that a read failure other than a missing file, such as a permission
  error, leaves \<^verbatim>\<open>_getLockObject\<close> as an error. It does not: the \<^verbatim>\<open>catch\<close> returns
  the empty object for every error. Here the lock file exists and cannot be read.
\<close>

theorem permission_error_not_propagated:
  "read_result ((sample_world (fs_locked ''{ sample lock }'') [])\<lparr>unreadable := [cache_path @ [LOCK_FILE_NAME]]\<rparr>)
      (cache_path @ [LOCK_FILE_NAME]) = Inl PermissionDenied
   \<and> fst (getLockObject sample_rt
      ((sample_world (fs_locked ''{ sample lock }'') [])\<lparr>unreadable := [cache_path @ [LOCK_FILE_NAME]]\<rparr>)
      (cache_path @ [LOCK_FILE_NAME])) = Inr (JObject [])
   \<and> fst (getLockObject sample_rt
      ((sample_world (fs_locked ''{ sample lock }'') [])\<lparr>unreadable := [cache_path @ [LOCK_FILE_NAME]]\<rparr>)
      (cache_path @ [LOCK_FILE_NAME])) \<noteq> Inl PermissionDenied"
  by (simp add: getLockObject_def getLockObject_try_def readFile_def read_result_def sample_world_def)

text \<open>
  Claim C3, amended. Every failure of the read of the lock file, a permission error as
  much as a missing file, makes \<^verbatim>\<open>_getLockObject\<close> return the empty lock object: no
  error reaches the caller, nothing is printed, and the only effect is the read.
\<close>

theorem read_failure_loads_empty:
  assumes "read_result w p = Inl e"
  shows "getLockObject rt w p = (Inr (JObject []), emit (ReadFile p) w)"
  using assms read_result_cases[OF assms]
  by (auto simp: getLockObject_def getLockObject_try_def readFile_def)

theorem read_failure_loads_empty_witness:
  "read_result ((sample_world (fs_locked ''{ sample lock }'') [])\<lparr>unreadable := [cache_path @ [LOCK_FILE_NAME]]\<rparr>)
      (cache_path @ [LOCK_FILE_NAME]) = Inl PermissionDenied
   \<and> getLockObject sample_rt
      ((sample_world (fs_locked ''{ sample lock }'') [])\<lparr>unreadable := [cache_path @ [LOCK_FILE_NAME]]\<rparr>)
      (cache_path @ [LOCK_FILE_NAME])
     = (Inr (JObject []),
        (sample_world (fs_locked ''{ sample lock }'') [])
          \<lparr>unreadable := [cache_path @ [LOCK_FILE_NAME]],
            trace := [ReadFile (cache_path @ [LOCK_FILE_NAME])]\<rparr>)"
proof -
  let ?w = "(sample_world (fs_locked ''{ sample lock }'') [])\<lparr>unreadable := [cache_path @ [LOCK_FILE_NAME]]\<rparr>"
  have h: "read_result ?w (cache_path @ [LOCK_FILE_NAME]) = Inl PermissionDenied"
    by (simp add: read_result_def sample_world_def)
  show ?thesis
    using h read_failure_loads_empty[OF h, of sample_rt] by (simp add: emit_def sample_world_def)
qed

section \<open>Resolving a plugin\<close>

lemma stale_entry_run:
  assumes "map_of (formatters m) url = None"
    and "URL_pathname rt url = Some pathname"
    and "js_get (lockObject m) url = Inr (Some entry)"
    and "isLockObjectEntry entry"
    and "js_get entry ''fileName'' = Inr (Some (JString name))"
    and "read_result w (manager_resolve w m [name]) = Inl NotFound"
    and "map_of (remote w) url = Some r"
    and "wasm_valid rt (body r)"
    and "\<not> list_ex (is_file (fs w)) (prefixes (manager_resolve w m []))"
  shows "\<exists>lock1 lock2.
      js_delete (lockObject m) url = Inr lock1 \<and> js_get lock1 url = Inr None
    \<and> js_set lock1 url (lock_entry (basename pathname) (hashSha512 rt (body r))) = Inr lock2
    \<and> js_get lock2 url = Inr (Some (lock_entry (basename pathname) (hashSha512 rt (body r))))
    \<and> loadFormatterFromUrl rt w m url =
        (Inr (Formatter (heap_next w) (body r)),
         w\<lparr>fs := write_fs (make_dirs (fs w) (manager_resolve w m []))
                   (manager_resolve w m [basename pathname]) (body r),
           heap_next := Suc (heap_next w),
           trace := trace w @ [ReadFile (manager_resolve w m [name]), Fetch url,
                               Mkdir (manager_resolve w m []),
                               WriteFile (manager_resolve w m [basename pathname]) (body r)]\<rparr>,
         m\<lparr>formatters := AList.update url (Formatter (heap_next w) (body r)) (formatters m),
           lockObject := lock2\<rparr>)"
proof -
  obtain lock1 lock2 where l:
    "js_delete (lockObject m) url = Inr lock1" "js_get lock1 url = Inr None"
    "js_set lock1 url (lock_entry (basename pathname) (hashSha512 rt (body r))) = Inr lock2"
    "js_get lock2 url = Inr (Some (lock_entry (basename pathname) (hashSha512 rt (body r))))"
    using js_set_after_delete[OF assms(3)] by blast
  let ?w1 = "emit (ReadFile (manager_resolve w m [name])) w"
  let ?m1 = "m\<lparr>lockObject := lock1\<rparr>"
  have d: "download rt ?w1 ?m1 url (basename pathname) =
        (Inr (Formatter (heap_next w) (body r)),
         w\<lparr>fs := write_fs (make_dirs (fs w) (manager_resolve w m []))
                   (manager_resolve w m [basename pathname]) (body r),
           heap_next := Suc (heap_next w),
           trace := trace w @ [ReadFile (manager_resolve w m [name]), Fetch url,
                               Mkdir (manager_resolve w m []),
                               WriteFile (manager_resolve w m [basename pathname]) (body r)]\<rparr>,
         m\<lparr>formatters := AList.update url (Formatter (heap_next w) (body r)) (formatters m),
           lockObject := lock2\<rparr>)"
    using assms(7,8,9) l(3)
    by (subst download_ok[where r = r and lock = lock2])
       (simp_all add: emit_def manager_resolve_def)
  have "loadFormatterFromUrl rt w m url = download rt ?w1 ?m1 url (basename pathname)"
    using assms l(1)
    by (simp add: loadFormatterFromUrl_def urlToFileName_def load_cached_def readFile_def)
  with d l show ?thesis by auto
qed

lemma mismatch_run:
  assumes "map_of (formatters m) url = None"
    and "URL_pathname rt url = Some pathname"
    and "js_get (lockObject m) url = Inr (Some entry)"
    and "isLockObjectEntry entry"
    and "js_get entry ''fileName'' = Inr (Some (JString name))"
    and "read_result w (manager_resolve w m [name]) = Inr buffer"
    and "js_get entry ''sha512'' \<noteq> Inr (Some (JString (hashSha512 rt buffer)))"
    and "map_of (remote w) url = Some r"
    and "wasm_valid rt (body r)"
    and "\<not> list_ex (is_file (fs w)) (prefixes (manager_resolve w m []))"
  shows "\<exists>lock2.
      js_set (lockObject m) url (lock_entry (basename pathname) (hashSha512 rt (body r))) = Inr lock2
    \<and> js_get lock2 url = Inr (Some (lock_entry (basename pathname) (hashSha512 rt (body r))))
    \<and> loadFormatterFromUrl rt w m url =
        (Inr (Formatter (heap_next w) (body r)),
         w\<lparr>fs := write_fs (make_dirs (fs w) (manager_resolve w m []))
                   (manager_resolve w m [basename pathname]) (body r),
           heap_next := Suc (heap_next w),
           trace := trace w @ [ReadFile (manager_resolve w m [name]),
                               ConsoleWarn (checksum_warning name), Fetch url,
                               Mkdir (manager_resolve w m []),
                               WriteFile (manager_resolve w m [basename pathname]) (body r)]\<rparr>,
         m\<lparr>formatters := AList.update url (Formatter (heap_next w) (body r)) (formatters m),
           lockObject := lock2\<rparr>)"
proof -
  obtain lock2 where l:
    "js_set (lockObject m) url (lock_entry (basename pathname) (hashSha512 rt (body r))) = Inr lock2"
    "js_get lock2 url = Inr (Some (lock_entry (basename pathname) (hashSha512 rt (body r))))"
    using js_set_present[OF assms(3)] by blast
  let ?w1 = "emit (ConsoleWarn (checksum_warning name)) (emit (ReadFile (manager_resolve w m [name])) w)"
  have d: "download rt ?w1 m url (basename pathname) =
        (Inr (Formatter (heap_next w) (body r)),
         w\<lparr>fs := write_fs (make_dirs (fs w) (manager_resolve w m []))
                   (manager_resolve w m [basename pathname]) (body r),
           heap_next := Suc (heap_next w),
           trace := trace w @ [ReadFile (manager_resolve w m [name]),
                               ConsoleWarn (checksum_warning name), Fetch url,
                               Mkdir (manager_resolve w m []),
                               WriteFile (manager_resolve w m [basename pathname]) (body r)]\<rparr>,
         m\<lparr>formatters := AList.update url (Formatter (heap_next w) (body r)) (formatters m),
           lockObject := lock2\<rparr>)"
    using assms(8,9,10) l(1)
    by (subst download_ok[where r = r and lock = lock2])
       (simp_all add: emit_def manager_resolve_def)
  have "loadFormatterFromUrl rt w m url = download rt ?w1 m url (basename pathname)"
    using assms
    by (simp add: loadFormatterFromUrl_def urlToFileName_def load_cached_def readFile_def)
  with d l show ?thesis by auto
qed

lemma is_file_write_fs_other: "q \<noteq> p \<Longrightarrow> is_file (write_fs t p b) q = is_file t q"
  by (simp add: is_file_def node_at_write_fs_other)

text \<open>
  Claim C4. The URL has no formatter in memory and a valid lock entry, and the file
  that the entry names is absent from the cache directory. The remote source answers,
  the answer is a module, and no file stands where the cache directory is to be. Then
  \<^verbatim>\<open>loadFormatterFromUrl\<close> returns a formatter made from the fetched bytes. The old
  entry is deleted from the lock object before the new one is set, and the new entry
  holds the derived file name and the digest of the fetched bytes. The calls of the run
  are, in order, the failed read, one fetch of the URL, the \<^verbatim>\<open>mkdir\<close>, and the write of
  the fetched bytes to the derived name; when that name is a file name and no directory
  has it, the cache file holds these bytes afterwards.
\<close>

theorem stale_entry_refetched:
  assumes "map_of (formatters m) url = None"
    and "URL_pathname rt url = Some pathname"
    and "js_get (lockObject m) url = Inr (Some entry)"
    and "isLockObjectEntry entry"
    and "js_get entry ''fileName'' = Inr (Some (JString name))"
    and "read_result w (manager_resolve w m [name]) = Inl NotFound"
    and "map_of (remote w) url = Some r"
    and "wasm_valid rt (body r)"
    and "\<not> list_ex (is_file (fs w)) (prefixes (manager_resolve w m []))"
    and "loadFormatterFromUrl rt w m url = (res, w', m')"
  shows "res = Inr (Formatter (heap_next w) (body r))
    \<and> (\<exists>lock1. js_delete (lockObject m) url = Inr lock1 \<and> js_get lock1 url = Inr None
          \<and> js_set lock1 url (lock_entry (basename pathname) (hashSha512 rt (body r)))
              = Inr (lockObject m'))
    \<and> js_get (lockObject m') url
        = Inr (Some (lock_entry (basename pathname) (hashSha512 rt (body r))))
    \<and> trace w' = trace w @ [ReadFile (manager_resolve w m [name]), Fetch url,
                             Mkdir (manager_resolve w m []),
                             WriteFile (manager_resolve w m [basename pathname]) (body r)]
    \<and> (valid_name (basename pathname)
          \<and> node_at (fs w) (manager_resolve w m [basename pathname]) \<noteq> Some Dir
        \<longrightarrow> node_at (fs w') (manager_resolve w m [basename pathname]) = Some (File (body r)))"
proof -
  from stale_entry_run[OF assms(1-9)] assms(10) obtain lock1 lock2 where l:
    "js_delete (lockObject m) url = Inr lock1" "js_get lock1 url = Inr None"
    "js_set lock1 url (lock_entry (basename pathname) (hashSha512 rt (body r))) = Inr lock2"
    "js_get lock2 url = Inr (Some (lock_entry (basename pathname) (hashSha512 rt (body r))))"
    and res: "res = Inr (Formatter (heap_next w) (body r))"
    and w': "w' = w\<lparr>fs := write_fs (make_dirs (fs w) (manager_resolve w m []))
                   (manager_resolve w m [basename pathname]) (body r),
           heap_next := Suc (heap_next w),
           trace := trace w @ [ReadFile (manager_resolve w m [name]), Fetch url,
                               Mkdir (manager_resolve w m []),
                               WriteFile (manager_resolve w m [basename pathname]) (body r)]\<rparr>"
    and m': "m' = m\<lparr>formatters := AList.update url (Formatter (heap_next w) (body r)) (formatters m),
           lockObject := lock2\<rparr>"
    by auto
  have "node_at (fs w') (manager_resolve w m [basename pathname]) = Some (File (body r))"
    if "valid_name (basename pathname)"
      and "node_at (fs w) (manager_resolve w m [basename pathname]) \<noteq> Some Dir"
    using that written_artifact[OF assms(9), of "basename pathname" "body r"]
    by (simp add: w' resolve_valid_name)
  with res l w' m' show ?thesis by auto
qed

text \<open>
  The claim on the sample lock with an empty cache directory: the entry of the lock
  names \<^verbatim>\<open>json-0.1.wasm\<close> with the digest of other bytes than the source now serves.
\<close>

theorem stale_entry_refetched_witness:
  "read_result (sample_world fs_empty [(sample_url, Response 200 ''asm2'')])
      (cache_path @ [''json-0.1.wasm'']) = Inl NotFound
   \<and> loadFormatterFromUrl sample_rt (sample_world fs_empty [(sample_url, Response 200 ''asm2'')])
       (sample_manager sample_lock) sample_url =
     (Inr (Formatter 0 ''asm2''),
      (sample_world (fs_cached ''asm2'') [(sample_url, Response 200 ''asm2'')])
        \<lparr>heap_next := 1,
          trace := [ReadFile (cache_path @ [''json-0.1.wasm'']), Fetch sample_url,
                    Mkdir cache_path, WriteFile (cache_path @ [''json-0.1.wasm'']) ''asm2'']\<rparr>,
      (sample_manager (JObject [(sample_url, lock_entry ''json-0.1.wasm'' ''sha512:asm2'')]))
        \<lparr>formatters := [(sample_url, Formatter 0 ''asm2'')]\<rparr>)
   \<and> js_get (JObject [(sample_url, lock_entry ''json-0.1.wasm'' ''sha512:asm2'')]) sample_url
       = Inr (Some (lock_entry (basename ''/json-0.1.wasm'')
                      (hashSha512 sample_rt (body (Response 200 ''asm2'')))))"
proof -
  let ?w = "sample_world fs_empty [(sample_url, Response 200 ''asm2'')]"
  let ?m = "sample_manager sample_lock"
  let ?e = "lock_entry ''json-0.1.wasm'' ''sha512:asm1''"
  have run: "loadFormatterFromUrl sample_rt ?w ?m sample_url =
     (Inr (Formatter 0 ''asm2''),
      (sample_world (fs_cached ''asm2'') [(sample_url, Response 200 ''asm2'')])
        \<lparr>heap_next := 1,
          trace := [ReadFile (cache_path @ [''json-0.1.wasm'']), Fetch sample_url,
                    Mkdir cache_path, WriteFile (cache_path @ [''json-0.1.wasm'']) ''asm2'']\<rparr>,
      (sample_manager (JObject [(sample_url, lock_entry ''json-0.1.wasm'' ''sha512:asm2'')]))
        \<lparr>formatters := [(sample_url, Formatter 0 ''asm2'')]\<rparr>)"
    by (simp add: run_defs sample_defs)
  have h1: "map_of (formatters ?m) sample_url = None" by (simp add: sample_manager_def)
  have h2: "URL_pathname sample_rt sample_url = Some ''/json-0.1.wasm''"
    by (simp add: sample_rt_def sample_pathname_def sample_url_def)
  have h3: "js_get (lockObject ?m) sample_url = Inr (Some ?e)"
    by (simp add: sample_manager_def sample_lock_def)
  have h4: "isLockObjectEntry ?e" by (rule lock_entry_valid)
  have h5: "js_get ?e ''fileName'' = Inr (Some (JString ''json-0.1.wasm''))"
    by (simp add: lock_entry_def)
  have r: "manager_resolve ?w ?m [''json-0.1.wasm''] = cache_path @ [''json-0.1.wasm'']"
    "manager_resolve ?w ?m [] = cache_path"
    by (simp_all add: manager_resolve_def resolve_def resolve_from_def norm_step_def sample_defs)
  have h6: "read_result ?w (manager_resolve ?w ?m [''json-0.1.wasm'']) = Inl NotFound"
    unfolding r by (simp add: read_result_def node_at_def sample_defs)
  have h7: "map_of (remote ?w) sample_url = Some (Response 200 ''asm2'')"
    by (simp add: sample_world_def)
  have h8: "wasm_valid sample_rt (body (Response 200 ''asm2''))" by (simp add: sample_rt_def)
  have h9: "\<not> list_ex (is_file (fs ?w)) (prefixes (manager_resolve ?w ?m []))"
    unfolding r by (simp add: is_file_def node_at_def sample_defs)
  from stale_entry_refetched[OF h1 h2 h3 h4 h5 h6 h7 h8 h9 run]
  have "js_get (JObject [(sample_url, lock_entry ''json-0.1.wasm'' ''sha512:asm2'')]) sample_url
       = Inr (Some (lock_entry (basename ''/json-0.1.wasm'')
                      (hashSha512 sample_rt (body (Response 200 ''asm2'')))))"
    by (simp add: sample_manager_def)
  with run h6 show ?thesis unfolding r by simp
qed

text \<open>
  Claim C5 says that after a checksum mismatch the new entry never holds the recorded
  digest. It holds the digest of what was fetched, and that is the recorded one when
  the remote source still serves the bytes the lock was written for. Here the cache file
  was altered on disk, the lock records the digest of the original bytes \<^verbatim>\<open>asm1\<close>, and
  the source serves \<^verbatim>\<open>asm1\<close>: the new entry has the recorded digest.
\<close>

theorem refetch_restores_recorded_hash:
  "js_get (lockObject (sample_manager sample_lock)) sample_url
     = Inr (Some (lock_entry ''json-0.1.wasm'' ''sha512:asm1''))
   \<and> read_result (sample_world (fs_cached ''asmX'') [(sample_url, Response 200 ''asm1'')])
       (cache_path @ [''json-0.1.wasm'']) = Inr ''asmX''
   \<and> hashSha512 sample_rt ''asmX'' \<noteq> ''sha512:asm1''
   \<and> fst (loadFormatterFromUrl sample_rt
            (sample_world (fs_cached ''asmX'') [(sample_url, Response 200 ''asm1'')])
            (sample_manager sample_lock) sample_url) = Inr (Formatter 0 ''asm1'')
   \<and> js_get (lockObject (snd (snd (loadFormatterFromUrl sample_rt
            (sample_world (fs_cached ''asmX'') [(sample_url, Response 200 ''asm1'')])
            (sample_manager sample_lock) sample_url)))) sample_url
     = Inr (Some (lock_entry ''json-0.1.wasm'' ''sha512:asm1''))"
  by (simp add: run_defs sample_defs)

text \<open>
  Claim C5, amended. The URL has no formatter in memory and a valid lock entry; the file
  that the entry names is read, and the digest of its bytes is not the recorded one.
  The remote source answers with a module, and no file stands where the cache directory
  is to be. Then \<^verbatim>\<open>loadFormatterFromUrl\<close> prints the checksum warning and goes on. The
  one formatter that the call creates is made from the fetched bytes, not from the bytes
  of the file. The entry of the URL is replaced by one with the derived file name and the
  digest of the fetched bytes, whatever digest was recorded; so it differs from the
  recorded digest exactly when the fetched bytes have another digest. The calls of the
  run are the read, the warning, one fetch, the \<^verbatim>\<open>mkdir\<close> and the write.
\<close>

theorem checksum_mismatch_refetched:
  assumes "map_of (formatters m) url = None"
    and "URL_pathname rt url = Some pathname"
    and "js_get (lockObject m) url = Inr (Some entry)"
    and "isLockObjectEntry entry"
    and "js_get entry ''fileName'' = Inr (Some (JString name))"
    and "read_result w (manager_resolve w m [name]) = Inr buffer"
    and "js_get entry ''sha512'' \<noteq> Inr (Some (JString (hashSha512 rt buffer)))"
    and "map_of (remote w) url = Some r"
    and "wasm_valid rt (body r)"
    and "\<not> list_ex (is_file (fs w)) (prefixes (manager_resolve w m []))"
    and "loadFormatterFromUrl rt w m url = (res, w', m')"
  shows "res = Inr (Formatter (heap_next w) (body r))
    \<and> heap_next w' = Suc (heap_next w)
    \<and> js_set (lockObject m) url (lock_entry (basename pathname) (hashSha512 rt (body r)))
        = Inr (lockObject m')
    \<and> js_get (lockObject m') url
        = Inr (Some (lock_entry (basename pathname) (hashSha512 rt (body r))))
    \<and> trace w' = trace w @ [ReadFile (manager_resolve w m [name]),
                             ConsoleWarn (checksum_warning name), Fetch url,
                             Mkdir (manager_resolve w m []),
                             WriteFile (manager_resolve w m [basename pathname]) (body r)]"
  using mismatch_run[OF assms(1-10)] assms(11) by auto

text \<open>
  The amended claim where the source serves new bytes \<^verbatim>\<open>asm2\<close> and the cache file
  holds \<^verbatim>\<open>asmX\<close>.
\<close>

theorem checksum_mismatch_refetched_witness:
  "read_result (sample_world (fs_cached ''asmX'') [(sample_url, Response 200 ''asm2'')])
      (cache_path @ [''json-0.1.wasm'']) = Inr ''asmX''
   \<and> js_get (lock_entry ''json-0.1.wasm'' ''sha512:asm1'') ''sha512''
       \<noteq> Inr (Some (JString (hashSha512 sample_rt ''asmX'')))
   \<and> loadFormatterFromUrl sample_rt
       (sample_world (fs_cached ''asmX'') [(sample_url, Response 200 ''asm2'')])
       (sample_manager sample_lock) sample_url =
     (Inr (Formatter 0 ''asm2''),
      (sample_world (fs_cached ''asm2'') [(sample_url, Response 200 ''asm2'')])
        \<lparr>heap_next := 1,
          trace := [ReadFile (cache_path @ [''json-0.1.wasm'']),
                    ConsoleWarn (checksum_warning ''json-0.1.wasm''), Fetch sample_url,
                    Mkdir cache_path, WriteFile (cache_path @ [''json-0.1.wasm'']) ''asm2'']\<rparr>,
      (sample_manager (JObject [(sample_url, lock_entry ''json-0.1.wasm'' ''sha512:asm2'')]))
        \<lparr>formatters := [(sample_url, Formatter 0 ''asm2'')]\<rparr>)
   \<and> js_set sample_lock sample_url
        (lock_entry (basename ''/json-0.1.wasm'') (hashSha512 sample_rt (body (Response 200 ''asm2''))))
       = Inr (JObject [(sample_url, lock_entry ''json-0.1.wasm'' ''sha512:asm2'')])"
proof -
  let ?w = "sample_world (fs_cached ''asmX'') [(sample_url, Response 200 ''asm2'')]"
  let ?m = "sample_manager sample_lock"
  let ?e = "lock_entry ''json-0.1.wasm'' ''sha512:asm1''"
  have run: "loadFormatterFromUrl sample_rt ?w ?m sample_url =
     (Inr (Formatter 0 ''asm2''),
      (sample_world (fs_cached ''asm2'') [(sample_url, Response 200 ''asm2'')])
        \<lparr>heap_next := 1,
          trace := [ReadFile (cache_path @ [''json-0.1.wasm'']),
                    ConsoleWarn (checksum_warning ''json-0.1.wasm''), Fetch sample_url,
                    Mkdir cache_path, WriteFile (cache_path @ [''json-0.1.wasm'']) ''asm2'']\<rparr>,
      (sample_manager (JObject [(sample_url, lock_entry ''json-0.1.wasm'' ''sha512:asm2'')]))
        \<lparr>formatters := [(sample_url, Formatter 0 ''asm2'')]\<rparr>)"
    by (simp add: run_defs sample_defs)
  have h1: "map_of (formatters ?m) sample_url = None" by (simp add: sample_manager_def)
  have h2: "URL_pathname sample_rt sample_url = Some ''/json-0.1.wasm''"
    by (simp add: sample_rt_def sample_pathname_def sample_url_def)
  have h3: "js_get (lockObject ?m) sample_url = Inr (Some ?e)"
    by (simp add: sample_manager_def sample_lock_def)
  have h4: "isLockObjectEntry ?e" by (rule lock_entry_valid)
  have h5: "js_get ?e ''fileName'' = Inr (Some (JString ''json-0.1.wasm''))"
    by (simp add: lock_entry_def)
  have r: "manager_resolve ?w ?m [''json-0.1.wasm''] = cache_path @ [''json-0.1.wasm'']"
    "manager_resolve ?w ?m [] = cache_path"
    by (simp_all add: manager_resolve_def resolve_def resolve_from_def norm_step_def sample_defs)
  have h6: "read_result ?w (manager_resolve ?w ?m [''json-0.1.wasm'']) = Inr ''asmX''"
    unfolding r by (simp add: read_result_def node_at_def sample_defs)
  have h7: "js_get ?e ''sha512'' \<noteq> Inr (Some (JString (hashSha512 sample_rt ''asmX'')))"
    by (simp add: lock_entry_def hashSha512_def sample_rt_def)
  have h8: "map_of (remote ?w) sample_url = Some (Response 200 ''asm2'')"
    by (simp add: sample_world_def)
  have h9: "wasm_valid sample_rt (body (Response 200 ''asm2''))" by (simp add: sample_rt_def)
  have h10: "\<not> list_ex (is_file (fs ?w)) (prefixes (manager_resolve ?w ?m []))"
    unfolding r by (simp add: is_file_def node_at_def sample_defs)
  from checksum_mismatch_refetched[OF h1 h2 h3 h4 h5 h6 h7 h8 h9 h10 run]
  have "js_set sample_lock sample_url
        (lock_entry (basename ''/json-0.1.wasm'') (hashSha512 sample_rt (body (Response 200 ''asm2''))))
       = Inr (JObject [(sample_url, lock_entry ''json-0.1.wasm'' ''sha512:asm2'')])"
    by (simp add: sample_manager_def)
  with run h6 h7 show ?thesis unfolding r by simp
qed

text \<open>
  Claim C6. When a call of \<^verbatim>\<open>loadFormatterFromUrl\<close> has returned a formatter, the next
  call for the same URL, on the state the first one left, returns the same formatter
  object and leaves the world and the manager as they are: the trace, which records
  every file system call and request, does not grow.
\<close>

theorem second_resolve_from_memory:
  assumes "loadFormatterFromUrl rt w m url = (Inr f, w', m')"
  shows "loadFormatterFromUrl rt w' m' url = (Inr f, w', m')"
  using loadFormatterFromUrl_success[OF assms] by (simp add: loadFormatterFromUrl_def)

text \<open>The claim after a download into an empty cache with an empty lock object.\<close>

theorem second_resolve_from_memory_witness:
  "loadFormatterFromUrl sample_rt (sample_world fs_empty [(sample_url, Response 200 ''asm1'')])
       (sample_manager (JObject [])) sample_url =
     (Inr (Formatter 0 ''asm1''),
      (sample_world (fs_cached ''asm1'') [(sample_url, Response 200 ''asm1'')])
        \<lparr>heap_next := 1,
          trace := [Fetch sample_url, Mkdir cache_path,
                    WriteFile (cache_path @ [''json-0.1.wasm'']) ''asm1'']\<rparr>,
      (sample_manager sample_lock)\<lparr>formatters := [(sample_url, Formatter 0 ''asm1'')]\<rparr>)
   \<and> loadFormatterFromUrl sample_rt
       ((sample_world (fs_cached ''asm1'') [(sample_url, Response 200 ''asm1'')])
        \<lparr>heap_next := 1,
          trace := [Fetch sample_url, Mkdir cache_path,
                    WriteFile (cache_path @ [''json-0.1.wasm'']) ''asm1'']\<rparr>)
       ((sample_manager sample_lock)\<lparr>formatters := [(sample_url, Formatter 0 ''asm1'')]\<rparr>)
       sample_url =
     (Inr (Formatter 0 ''asm1''),
      (sample_world (fs_cached ''asm1'') [(sample_url, Response 200 ''asm1'')])
        \<lparr>heap_next := 1,
          trace := [Fetch sample_url, Mkdir cache_path,
                    WriteFile (cache_path @ [''json-0.1.wasm'']) ''asm1'']\<rparr>,
      (sample_manager sample_lock)\<lparr>formatters := [(sample_url, Formatter 0 ''asm1'')]\<rparr>)"
proof -
  have run: "loadFormatterFromUrl sample_rt (sample_world fs_empty [(sample_url, Response 200 ''asm1'')])
       (sample_manager (JObject [])) sample_url =
     (Inr (Formatter 0 ''asm1''),
      (sample_world (fs_cached ''asm1'') [(sample_url, Response 200 ''asm1'')])
        \<lparr>heap_next := 1,
          trace := [Fetch sample_url, Mkdir cache_path,
                    WriteFile (cache_path @ [''json-0.1.wasm'']) ''asm1'']\<rparr>,
      (sample_manager sample_lock)\<lparr>formatters := [(sample_url, Formatter 0 ''asm1'')]\<rparr>)"
    by (simp add: run_defs sample_defs)
  from run second_resolve_from_memory[OF run] show ?thesis by (rule conjI)
qed

text \<open>
  Claim C7. The URL has no formatter in memory and a valid lock entry; the file that the
  entry names is read, the digest of its bytes is the recorded one, and the bytes are a
  module. Then \<^verbatim>\<open>loadFormatterFromUrl\<close> returns a new formatter made from these bytes
  and stores it under the URL. The world changes by the one read in the trace and by the
  new object: there is no request to the network. The manager changes in its formatters
  only: the lock object, and so the entry of the URL, is as before.
\<close>

theorem cache_hit_without_network:
  assumes "map_of (formatters m) url = None"
    and "URL_pathname rt url = Some pathname"
    and "js_get (lockObject m) url = Inr (Some entry)"
    and "isLockObjectEntry entry"
    and "js_get entry ''fileName'' = Inr (Some (JString name))"
    and "read_result w (manager_resolve w m [name]) = Inr buffer"
    and "js_get entry ''sha512'' = Inr (Some (JString (hashSha512 rt buffer)))"
    and "wasm_valid rt buffer"
  shows "loadFormatterFromUrl rt w m url =
     (Inr (Formatter (heap_next w) buffer),
      w\<lparr>heap_next := Suc (heap_next w),
        trace := trace w @ [ReadFile (manager_resolve w m [name])]\<rparr>,
      m\<lparr>formatters := AList.update url (Formatter (heap_next w) buffer) (formatters m)\<rparr>)"
  using assms
  by (simp add: loadFormatterFromUrl_def urlToFileName_def load_cached_def readFile_def
      createFromBuffer_def emit_def)

text \<open>The claim on the sample lock with the artifact it records in the cache.\<close>

theorem cache_hit_without_network_witness:
  "read_result (sample_world (fs_cached ''asm1'') []) (cache_path @ [''json-0.1.wasm'']) = Inr ''asm1''
   \<and> hashSha512 sample_rt ''asm1'' = ''sha512:asm1''
   \<and> loadFormatterFromUrl sample_rt (sample_world (fs_cached ''asm1'') [])
        (sample_manager sample_lock) sample_url =
     (Inr (Formatter 0 ''asm1''),
      (sample_world (fs_cached ''asm1'') [])
        \<lparr>heap_next := 1, trace := [ReadFile (cache_path @ [''json-0.1.wasm''])]\<rparr>,
      (sample_manager sample_lock)\<lparr>formatters := [(sample_url, Formatter 0 ''asm1'')]\<rparr>)"
proof -
  let ?w = "sample_world (fs_cached ''asm1'') []"
  let ?m = "sample_manager sample_lock"
  let ?e = "lock_entry ''json-0.1.wasm'' ''sha512:asm1''"
  have h1: "map_of (formatters ?m) sample_url = None" by (simp add: sample_manager_def)
  have h2: "URL_pathname sample_rt sample_url = Some ''/json-0.1.wasm''"
    by (simp add: sample_rt_def sample_pathname_def sample_url_def)
  have h3: "js_get (lockObject ?m) sample_url = Inr (Some ?e)"
    by (simp add: sample_manager_def sample_lock_def)
  have h4: "isLockObjectEntry ?e" by (rule lock_entry_valid)
  have h5: "js_get ?e ''fileName'' = Inr (Some (JString ''json-0.1.wasm''))"
    by (simp add: lock_entry_def)
  have r: "manager_resolve ?w ?m [''json-0.1.wasm''] = cache_path @ [''json-0.1.wasm'']"
    by (simp add: manager_resolve_def resolve_def resolve_from_def norm_step_def sample_defs)
  have h6: "read_result ?w (manager_resolve ?w ?m [''json-0.1.wasm'']) = Inr ''asm1''"
    unfolding r by (simp add: read_result_def node_at_def sample_defs)
  have hash: "hashSha512 sample_rt ''asm1'' = ''sha512:asm1''"
    by (simp add: hashSha512_def sample_rt_def)
  have h7: "js_get ?e ''sha512'' = Inr (Some (JString (hashSha512 sample_rt ''asm1'')))"
    by (simp add: lock_entry_def hash)
  have h8: "wasm_valid sample_rt ''asm1''" by (simp add: sample_rt_def)
  have "loadFormatterFromUrl sample_rt ?w ?m sample_url =
     (Inr (Formatter 0 ''asm1''),
      ?w\<lparr>heap_next := 1, trace := [ReadFile (cache_path @ [''json-0.1.wasm''])]\<rparr>,
      ?m\<lparr>formatters := [(sample_url, Formatter 0 ''asm1'')]\<rparr>)"
    using cache_hit_without_network[OF h1 h2 h3 h4 h5 h6 h7 h8] unfolding r
    by (simp add: sample_world_def sample_manager_def)
  with h6 hash show ?thesis unfolding r by simp
qed

text \<open>
  Claim C9 asks that a plugin fetch answered with a non-success status fails the run,
  that no formatter is made from its body and that no lock entry records its digest.
  \<^verbatim>\<open>loadFormatterFromUrl\<close> never looks at the status (the source marks the download
  with a note that its failure is not handled yet, while the fetch of the plugin list
  does test \<^verbatim>\<open>response.ok\<close>). Here the source answers with status 404 and a body that
  the plugin host accepts: the call returns a formatter made from that body, the lock
  object records the digest of the body, and the body is written to the cache.
\<close>

theorem non_ok_response_accepted:
  "ok (Response 404 ''asm of an error page'') = False
   \<and> loadFormatterFromUrl sample_rt
       (sample_world fs_empty [(sample_url, Response 404 ''asm of an error page'')])
       (sample_manager (JObject [])) sample_url =
     (Inr (Formatter 0 ''asm of an error page''),
      (sample_world (fs_cached ''asm of an error page'')
                    [(sample_url, Response 404 ''asm of an error page'')])
        \<lparr>heap_next := 1,
          trace := [Fetch sample_url, Mkdir cache_path,
                    WriteFile (cache_path @ [''json-0.1.wasm'']) ''asm of an error page'']\<rparr>,
      (sample_manager
         (JObject [(sample_url, lock_entry ''json-0.1.wasm'' ''sha512:asm of an error page'')]))
        \<lparr>formatters := [(sample_url, Formatter 0 ''asm of an error page'')]\<rparr>)"
  by (simp add: run_defs sample_defs ok_def)

text \<open>
  Claim C10. Two different URLs whose path names have the same base name get the same
  file name from \<^verbatim>\<open>_urlToFileName\<close>. When both are downloaded one after the other,
  starting without entries and formatters for them, both lock entries name that one
  file, each with the digest of its own bytes, and the cache file holds the bytes of the
  first download after the first call and the bytes of the second download after the
  second call (the name being a file name that no directory has).
\<close>

theorem same_file_name_collision:
  assumes "u1 \<noteq> u2"
    and "URL_pathname rt u1 = Some p1" and "URL_pathname rt u2 = Some p2"
    and "basename p1 = basename p2"
    and "lockObject m = JObject ps" and "map_of ps u1 = None" and "map_of ps u2 = None"
    and "map_of (formatters m) u1 = None" and "map_of (formatters m) u2 = None"
    and "map_of (remote w) u1 = Some r1" and "map_of (remote w) u2 = Some r2"
    and "wasm_valid rt (body r1)" and "wasm_valid rt (body r2)"
    and "\<not> list_ex (is_file (fs w)) (prefixes (manager_resolve w m []))"
    and "valid_name (basename p1)"
    and "node_at (fs w) (manager_resolve w m [basename p1]) \<noteq> Some Dir"
    and "loadFormatterFromUrl rt w m u1 = (res1, w1, m1)"
    and "loadFormatterFromUrl rt w1 m1 u2 = (res2, w2, m2)"
  shows "urlToFileName rt u1 = urlToFileName rt u2
     \<and> res1 = Inr (Formatter (heap_next w) (body r1))
     \<and> res2 = Inr (Formatter (Suc (heap_next w)) (body r2))
     \<and> js_get (lockObject m2) u1 = Inr (Some (lock_entry (basename p1) (hashSha512 rt (body r1))))
     \<and> js_get (lockObject m2) u2 = Inr (Some (lock_entry (basename p1) (hashSha512 rt (body r2))))
     \<and> node_at (fs w1) (manager_resolve w m [basename p1]) = Some (File (body r1))
     \<and> node_at (fs w2) (manager_resolve w m [basename p1]) = Some (File (body r2))"
proof -
  let ?d = "manager_resolve w m []"
  let ?f = "basename p1"
  let ?e1 = "lock_entry ?f (hashSha512 rt (body r1))"
  let ?e2 = "lock_entry ?f (hashSha512 rt (body r2))"
  let ?F1 = "Formatter (heap_next w) (body r1)"
  have t: "manager_resolve w m [?f] = ?d @ [?f]"
    using assms(15) by (rule resolve_valid_name)
  have name: "urlToFileName rt u1 = Inr ?f" "urlToFileName rt u2 = Inr ?f"
    using assms(2,3,4) by (simp_all add: urlToFileName_def)
  have set1: "js_set (lockObject m) u1 ?e1 = Inr (JObject (AList.update u1 ?e1 ps))"
    using assms(5) by simp
  have "loadFormatterFromUrl rt w m u1 = download rt w m u1 ?f"
    using assms(5,6,8) name by (simp add: loadFormatterFromUrl_def)
  with download_ok[OF assms(10) assms(12) set1 assms(14)] assms(17)
  have res1: "res1 = Inr ?F1"
    and w1: "w1 = w\<lparr>fs := write_fs (make_dirs (fs w) ?d) (?d @ [?f]) (body r1),
        heap_next := Suc (heap_next w),
        trace := trace w @ [Fetch u1, Mkdir ?d, WriteFile (?d @ [?f]) (body r1)]\<rparr>"
    and m1: "m1 = m\<lparr>formatters := AList.update u1 ?F1 (formatters m),
        lockObject := JObject (AList.update u1 ?e1 ps)\<rparr>"
    by (simp_all add: t)
  have file1: "node_at (fs w1) (?d @ [?f]) = Some (File (body r1))"
    using written_artifact[OF assms(14), of ?f "body r1"] assms(16) by (simp add: w1 t)
  have r1: "\<And>xs. manager_resolve w1 m1 xs = manager_resolve w m xs"
    by (simp add: manager_resolve_def w1 m1)
  have nofile: "\<not> list_ex (is_file (fs w1)) (prefixes (manager_resolve w1 m1 []))"
  proof -
    have "is_file (fs w1) q = is_file (fs w) q" if "q \<in> set (prefixes ?d)" for q
    proof -
      from that have "q \<noteq> ?d @ [?f]" by (auto simp: in_set_prefixes prefix_def)
      then show ?thesis by (simp add: w1 is_file_write_fs_other is_file_make_dirs)
    qed
    with assms(14) show ?thesis by (simp add: r1 list_ex_iff)
  qed
  have f2: "map_of (formatters m1) u2 = None"
    using assms(1,9) by (simp add: m1 update_conv')
  have g2: "js_get (lockObject m1) u2 = Inr None"
    using assms(1,7) by (simp add: m1 update_conv')
  have set2: "js_set (lockObject m1) u2 ?e2
      = Inr (JObject (AList.update u2 ?e2 (AList.update u1 ?e1 ps)))"
    by (simp add: m1)
  have rem2: "map_of (remote w1) u2 = Some r2" using assms(11) by (simp add: w1)
  have "loadFormatterFromUrl rt w1 m1 u2 = download rt w1 m1 u2 ?f"
    using f2 g2 name by (simp add: loadFormatterFromUrl_def)
  with download_ok[OF rem2 assms(13) set2 nofile] assms(18)
  have res2: "res2 = Inr (Formatter (heap_next w1) (body r2))"
    and w2: "fs w2 = write_fs (make_dirs (fs w1) ?d) (?d @ [?f]) (body r2)"
    and m2: "lockObject m2 = JObject (AList.update u2 ?e2 (AList.update u1 ?e1 ps))"
    by (auto simp: r1 t)
  have nofile': "\<not> list_ex (is_file (fs w1)) (prefixes ?d)" using nofile by (simp add: r1)
  have file2: "node_at (fs w2) (?d @ [?f]) = Some (File (body r2))"
    using written_artifact[OF nofile', of ?f "body r2"] file1 by (simp add: w2)
  have e1: "js_get (lockObject m2) u1 = Inr (Some ?e1)"
    using assms(1) by (simp add: m2 update_conv')
  have e2: "js_get (lockObject m2) u2 = Inr (Some ?e2)"
    by (simp add: m2 update_conv')
  from name res1 res2 e1 e2 file1 file2 show ?thesis by (simp add: t w1)
qed

text \<open>
  The claim on two URLs that differ in host, directory and query and end in
  \<^verbatim>\<open>json-0.1.wasm\<close>: after both calls the entry of the first URL records the digest of
  \<^verbatim>\<open>asm1\<close>, and the file it names holds \<^verbatim>\<open>asm2\<close>.
\<close>

theorem same_file_name_collision_witness:
  "sample_url \<noteq> mirror_url
   \<and> urlToFileName sample_rt sample_url = Inr ''json-0.1.wasm''
   \<and> urlToFileName sample_rt mirror_url = Inr ''json-0.1.wasm''
   \<and> loadFormatterFromUrl sample_rt
       (sample_world fs_empty [(sample_url, Response 200 ''asm1''), (mirror_url, Response 200 ''asm2'')])
       (sample_manager (JObject [])) sample_url =
     (Inr (Formatter 0 ''asm1''),
      (sample_world (fs_cached ''asm1'')
          [(sample_url, Response 200 ''asm1''), (mirror_url, Response 200 ''asm2'')])
        \<lparr>heap_next := 1,
          trace := [Fetch sample_url, Mkdir cache_path,
                    WriteFile (cache_path @ [''json-0.1.wasm'']) ''asm1'']\<rparr>,
      (sample_manager sample_lock)\<lparr>formatters := [(sample_url, Formatter 0 ''asm1'')]\<rparr>)
   \<and> loadFormatterFromUrl sample_rt
       ((sample_world (fs_cached ''asm1'')
          [(sample_url, Response 200 ''asm1''), (mirror_url, Response 200 ''asm2'')])
        \<lparr>heap_next := 1,
          trace := [Fetch sample_url, Mkdir cache_path,
                    WriteFile (cache_path @ [''json-0.1.wasm'']) ''asm1'']\<rparr>)
       ((sample_manager sample_lock)\<lparr>formatters := [(sample_url, Formatter 0 ''asm1'')]\<rparr>)
       mirror_url =
     (Inr (Formatter 1 ''asm2''),
      (sample_world (fs_cached ''asm2'')
          [(sample_url, Response 200 ''asm1''), (mirror_url, Response 200 ''asm2'')])
        \<lparr>heap_next := 2,
          trace := [Fetch sample_url, Mkdir cache_path,
                    WriteFile (cache_path @ [''json-0.1.wasm'']) ''asm1'',
                    Fetch mirror_url, Mkdir cache_path,
                    WriteFile (cache_path @ [''json-0.1.wasm'']) ''asm2'']\<rparr>,
      (sample_manager
         (JObject [(sample_url, lock_entry ''json-0.1.wasm'' ''sha512:asm1''),
                   (mirror_url, lock_entry ''json-0.1.wasm'' ''sha512:asm2'')]))
        \<lparr>formatters := [(sample_url, Formatter 0 ''asm1''), (mirror_url, Formatter 1 ''asm2'')]\<rparr>)
   \<and> node_at (fs_cached ''asm2'') (cache_path @ [''json-0.1.wasm'']) = Some (File ''asm2'')"
proof -
  let ?net = "[(sample_url, Response 200 ''asm1''), (mirror_url, Response 200 ''asm2'')]"
  let ?w = "sample_world fs_empty ?net"
  let ?m = "sample_manager (JObject [])"
  let ?w1 = "(sample_world (fs_cached ''asm1'') ?net)
        \<lparr>heap_next := 1,
          trace := [Fetch sample_url, Mkdir cache_path,
                    WriteFile (cache_path @ [''json-0.1.wasm'']) ''asm1'']\<rparr>"
  let ?m1 = "(sample_manager sample_lock)\<lparr>formatters := [(sample_url, Formatter 0 ''asm1'')]\<rparr>"
  let ?w2 = "(sample_world (fs_cached ''asm2'') ?net)
        \<lparr>heap_next := 2,
          trace := [Fetch sample_url, Mkdir cache_path,
                    WriteFile (cache_path @ [''json-0.1.wasm'']) ''asm1'',
                    Fetch mirror_url, Mkdir cache_path,
                    WriteFile (cache_path @ [''json-0.1.wasm'']) ''asm2'']\<rparr>"
  let ?m2 = "(sample_manager
         (JObject [(sample_url, lock_entry ''json-0.1.wasm'' ''sha512:asm1''),
                   (mirror_url, lock_entry ''json-0.1.wasm'' ''sha512:asm2'')]))
        \<lparr>formatters := [(sample_url, Formatter 0 ''asm1''), (mirror_url, Formatter 1 ''asm2'')]\<rparr>"
  have run1: "loadFormatterFromUrl sample_rt ?w ?m sample_url = (Inr (Formatter 0 ''asm1''), ?w1, ?m1)"
    by (simp add: run_defs sample_defs)
  have run2: "loadFormatterFromUrl sample_rt ?w1 ?m1 mirror_url = (Inr (Formatter 1 ''asm2''), ?w2, ?m2)"
    by (simp add: run_defs sample_defs)
  have h1: "sample_url \<noteq> mirror_url" by (simp add: sample_url_def mirror_url_def)
  have h2: "URL_pathname sample_rt sample_url = Some ''/json-0.1.wasm''"
    by (simp add: sample_rt_def sample_pathname_def sample_url_def)
  have h3: "URL_pathname sample_rt mirror_url = Some ''/old/json-0.1.wasm''"
    by (simp add: sample_rt_def sample_pathname_def mirror_url_def)
  have b1: "basename ''/json-0.1.wasm'' = ''json-0.1.wasm''" by (simp add: basename_def)
  have b2: "basename ''/old/json-0.1.wasm'' = ''json-0.1.wasm''" by (simp add: basename_def)
  have h4: "basename ''/json-0.1.wasm'' = basename ''/old/json-0.1.wasm''" by (simp add: b1 b2)
  have h5: "lockObject ?m = JObject []" by (simp add: sample_manager_def)
  have h6: "map_of ([] :: (string \<times> jsval) list) sample_url = None"
    and h7: "map_of ([] :: (string \<times> jsval) list) mirror_url = None" by simp_all
  have h8: "map_of (formatters ?m) sample_url = None"
    and h9: "map_of (formatters ?m) mirror_url = None" by (simp_all add: sample_manager_def)
  have h10: "map_of (remote ?w) sample_url = Some (Response 200 ''asm1'')"
    by (simp add: sample_world_def)
  have h11: "map_of (remote ?w) mirror_url = Some (Response 200 ''asm2'')"
    using h1 by (simp add: sample_world_def)
  have h12: "wasm_valid sample_rt (body (Response 200 ''asm1''))"
    and h13: "wasm_valid sample_rt (body (Response 200 ''asm2''))" by (simp_all add: sample_rt_def)
  have r: "manager_resolve ?w ?m [''json-0.1.wasm''] = cache_path @ [''json-0.1.wasm'']"
    "manager_resolve ?w ?m [] = cache_path"
    by (simp_all add: manager_resolve_def resolve_def resolve_from_def norm_step_def sample_defs)
  have h14: "\<not> list_ex (is_file (fs ?w)) (prefixes (manager_resolve ?w ?m []))"
    unfolding r by (simp add: is_file_def node_at_def sample_defs)
  have h15: "valid_name (basename ''/json-0.1.wasm'')" by (simp add: b1 valid_name_def)
  have h16: "node_at (fs ?w) (manager_resolve ?w ?m [basename ''/json-0.1.wasm'']) \<noteq> Some Dir"
    unfolding b1 r by (simp add: node_at_def sample_defs)
  note c = same_file_name_collision[OF h1 h2 h3 h4 h5 h6 h7 h8 h9 h10 h11 h12 h13 h14 h15 h16 run1 run2]
  from c have names: "urlToFileName sample_rt sample_url = urlToFileName sample_rt mirror_url"
    by blast
  have n1: "urlToFileName sample_rt sample_url = Inr ''json-0.1.wasm''"
    using h2 b1 by (simp add: urlToFileName_def)
  from c have "node_at (fs ?w2) (manager_resolve ?w ?m [basename ''/json-0.1.wasm'']) = Some (File ''asm2'')"
    by simp
  then have cached: "node_at (fs_cached ''asm2'') (cache_path @ [''json-0.1.wasm'']) = Some (File ''asm2'')"
    unfolding b1 r by (simp add: sample_world_def)
  from h1 n1 names run1 run2 cached show ?thesis by simp
qed

section \<open>Reaping the cache directory\<close>

text \<open>
  Claim C8 says that the reap removes no file named by a lock entry. The file that an
  entry names is the one \<^verbatim>\<open>loadFormatterFromUrl\<close> reads, at the \<^verbatim>\<open>fileName\<close>
  resolved against the cache directory; the reap compares the names of the entries
  directly inside the cache directory with the \<^verbatim>\<open>fileName\<close> strings. Here the lock
  entry names \<^verbatim>\<open>sub/x.wasm\<close>, which a load accepts and resolves from the cache; the reap
  finds the directory \<^verbatim>\<open>sub\<close>, which no entry names, and removes it with the file.
\<close>

theorem reap_removes_nested_artifact:
  "new_manager sample_rt (sample_world fs_nested []) ''.dprint-cache''
     = (Inr (sample_manager nested_lock),
        (sample_world fs_nested [])\<lparr>trace := [ReadFile (cache_path @ [LOCK_FILE_NAME])]\<rparr>)
   \<and> js_get (lockObject (sample_manager nested_lock)) sample_url
     = Inr (Some (lock_entry ''sub/x.wasm'' ''sha512:asm1''))
   \<and> manager_resolve (sample_world fs_nested []) (sample_manager nested_lock) [''sub/x.wasm'']
     = cache_path @ [''sub'', ''x.wasm'']
   \<and> fst (loadFormatterFromUrl sample_rt (sample_world fs_nested []) (sample_manager nested_lock)
            sample_url) = Inr (Formatter 0 ''asm1'')
   \<and> node_at (fs (sample_world fs_nested [])) (cache_path @ [''sub'', ''x.wasm''])
     = Some (File ''asm1'')
   \<and> fst (cleanCacheDir (sample_world fs_nested []) (sample_manager nested_lock) False) = Inr ()
   \<and> node_at (fs (snd (cleanCacheDir (sample_world fs_nested []) (sample_manager nested_lock) False)))
        (cache_path @ [''sub'', ''x.wasm'']) = None"
  by (simp add: run_defs sample_defs new_manager_def getLockObject_def getLockObject_try_def
      isValidLockObject_def cleanCacheDir_def filesToKeep_def readDir_def dir_entries_def
      remove_def)

text \<open>
  Claim C8, amended. The reap ran on a file system whose paths consist of file names.
  Then every entry left directly inside the cache directory has a base name that is the
  lock file name, when the lock file is kept, or the \<^verbatim>\<open>fileName\<close> of some entry of the
  lock object. And for every entry of the lock object whose \<^verbatim>\<open>fileName\<close> is a file
  name, what the cache directory holds under that name, the file or a directory with
  all below it, is as before the reap. (A \<^verbatim>\<open>fileName\<close> that is a path into a
  subdirectory protects nothing.)
\<close>

theorem reap_keeps_listed_entries:
  assumes "wf_fs (fs w)"
    and "Object_entries (lockObject m) = Inr es"
    and "cleanCacheDir w m removeLockFile = (Inr (), w')"
  shows "(\<forall>n. n \<in> set (dir_entries (fs w') (manager_resolve w m [])) \<longrightarrow>
            (\<not> removeLockFile \<and> basename n = LOCK_FILE_NAME)
          \<or> (\<exists>k e. (k, e) \<in> set es
                \<and> js_get e ''fileName'' = Inr (Some (JString (basename n)))))
       \<and> (\<forall>k e f q. (k, e) \<in> set es
              \<and> js_get e ''fileName'' = Inr (Some (JString f)) \<and> valid_name f
              \<and> prefix (manager_resolve w m [f]) q
            \<longrightarrow> node_at (fs w') q = node_at (fs w) q)"
proof -
  let ?d = "manager_resolve w m []"
  let ?names = "dir_entries (fs w) ?d"
  from assms(2,3) obtain vs where vs: "entry_fileNames es = Inr vs"
    by (auto simp: cleanCacheDir_def filesToKeep_def split: sum.splits)
  define keep where "keep = (if removeLockFile then [] else [Some (JString LOCK_FILE_NAME)]) @ vs"
  have keep: "filesToKeep m removeLockFile = Inr keep"
    using assms(2) vs by (simp add: filesToKeep_def keep_def)
  have w': "w' = clean_entries m keep ?names (emit (ReadDir ?d) w)"
    using assms(3) keep
    by (auto simp: cleanCacheDir_def readDir_def split: option.splits node.splits)
  have kept_iff: "\<And>x. Some (JString x) \<in> set keep \<longleftrightarrow>
      (\<not> removeLockFile \<and> x = LOCK_FILE_NAME)
      \<or> (\<exists>k e. (k, e) \<in> set es \<and> js_get e ''fileName'' = Inr (Some (JString x)))"
    using entry_fileNames_set[OF vs] by (auto simp: keep_def)
  have a: "(\<not> removeLockFile \<and> basename n = LOCK_FILE_NAME)
          \<or> (\<exists>k e. (k, e) \<in> set es \<and> js_get e ''fileName'' = Inr (Some (JString (basename n))))"
    if n: "n \<in> set (dir_entries (fs w') ?d)" for n
  proof -
    from n have key': "?d @ [n] \<in> fst ` set (fs w')" by (simp add: dir_entries_iff)
    moreover have sub: "set (fs w') \<subseteq> set (fs w)"
      using fs_clean_entries_subset[of m keep ?names "emit (ReadDir ?d) w"] by (simp add: w')
    ultimately have key: "?d @ [n] \<in> fst ` set (fs w)" by auto
    then have nn: "n \<in> set ?names" by (simp add: dir_entries_iff)
    from assms(1) key have "valid_name n" by (rule wf_fs_entry)
    then have r: "manager_resolve w m [n] = ?d @ [n]" by (rule resolve_valid_name)
    have "Some (JString (basename n)) \<in> set keep"
    proof (rule ccontr)
      assume "Some (JString (basename n)) \<notin> set keep"
      from clean_entries_removed[OF nn this, of "emit (ReadDir ?d) w" m] key' r
      show False by (simp add: w')
    qed
    then show ?thesis by (simp add: kept_iff)
  qed
  have b: "node_at (fs w') q = node_at (fs w) q"
    if e: "(k, e) \<in> set es" and f: "js_get e ''fileName'' = Inr (Some (JString f))"
      and v: "valid_name f" and p: "prefix (manager_resolve w m [f]) q" for k e f q
  proof -
    have fk: "Some (JString f) \<in> set keep" using e f by (auto simp: kept_iff)
    have pf: "prefix (?d @ [f]) q" using p v by (simp add: resolve_valid_name)
    have "\<forall>n \<in> set ?names. Some (JString (basename n)) \<notin> set keep
             \<longrightarrow> \<not> prefix (manager_resolve (emit (ReadDir ?d) w) m [n]) q"
    proof (intro ballI impI)
      fix n assume nn: "n \<in> set ?names" and nk: "Some (JString (basename n)) \<notin> set keep"
      from nn have "?d @ [n] \<in> fst ` set (fs w)" by (simp add: dir_entries_iff)
      with assms(1) have vn: "valid_name n" by (rule wf_fs_entry)
      show "\<not> prefix (manager_resolve (emit (ReadDir ?d) w) m [n]) q"
      proof
        assume "prefix (manager_resolve (emit (ReadDir ?d) w) m [n]) q"
        then have "prefix (?d @ [n]) q" using vn by (simp add: resolve_valid_name)
        with pf have "n = f" by (auto simp: prefix_def)
        with nk fk vn show False by (simp add: basename_valid_name)
      qed
    qed
    from clean_entries_kept[OF this] have "map_of (fs w') q = map_of (fs w) q"
      by (simp add: w')
    then show ?thesis by (simp add: node_at_def)
  qed
  from a b show ?thesis by blast
qed

text \<open>
  The amended claim on a cache directory with the lock file, the artifact of the sample
  lock and an artifact that no entry names: the reap leaves the first two.
\<close>

theorem reap_keeps_listed_entries_witness:
  "wf_fs (fs (sample_world fs_orphan []))
   \<and> Object_entries (lockObject (sample_manager sample_lock))
       = Inr [(sample_url, lock_entry ''json-0.1.wasm'' ''sha512:asm1'')]
   \<and> cleanCacheDir (sample_world fs_orphan []) (sample_manager sample_lock) False =
       (Inr (),
        (sample_world
           [([''work''], Dir), (cache_path, Dir),
            (cache_path @ [''plugin-lock.json''], File ''{ sample lock }''),
            (cache_path @ [''json-0.1.wasm''], File ''asm1'')] [])
          \<lparr>trace := [ReadDir cache_path, ConsoleLog ''Cleaning up: old-0.0.wasm'',
                      Remove (cache_path @ [''old-0.0.wasm''])]\<rparr>)
   \<and> dir_entries
        [([''work''], Dir), (cache_path, Dir),
         (cache_path @ [''plugin-lock.json''], File ''{ sample lock }''),
         (cache_path @ [''json-0.1.wasm''], File ''asm1'')] cache_path
       = [''plugin-lock.json'', ''json-0.1.wasm'']
   \<and> node_at
        [([''work''], Dir), (cache_path, Dir),
         (cache_path @ [''plugin-lock.json''], File ''{ sample lock }''),
         (cache_path @ [''json-0.1.wasm''], File ''asm1'')] (cache_path @ [''json-0.1.wasm''])
       = node_at (fs (sample_world fs_orphan [])) (cache_path @ [''json-0.1.wasm''])"
proof -
  let ?w = "sample_world fs_orphan []"
  let ?m = "sample_manager sample_lock"
  let ?e = "lock_entry ''json-0.1.wasm'' ''sha512:asm1''"
  let ?t = "[([''work''], Dir), (cache_path, Dir),
            (cache_path @ [''plugin-lock.json''], File ''{ sample lock }''),
            (cache_path @ [''json-0.1.wasm''], File ''asm1'')]"
  let ?w' = "(sample_world ?t [])
          \<lparr>trace := [ReadDir cache_path, ConsoleLog ''Cleaning up: old-0.0.wasm'',
                      Remove (cache_path @ [''old-0.0.wasm''])]\<rparr>"
  have h1: "wf_fs (fs ?w)" by (simp add: wf_fs_def valid_name_def sample_defs)
  have h2: "Object_entries (lockObject ?m) = Inr [(sample_url, ?e)]"
    by (simp add: sample_manager_def sample_lock_def)
  have h3: "cleanCacheDir ?w ?m False = (Inr (), ?w')"
    by (simp add: run_defs sample_defs cleanCacheDir_def filesToKeep_def readDir_def
        dir_entries_def remove_def)
  have entries: "dir_entries ?t cache_path = [''plugin-lock.json'', ''json-0.1.wasm'']"
    by (simp add: dir_entries_def cache_path_def)
  have r: "manager_resolve ?w ?m [''json-0.1.wasm''] = cache_path @ [''json-0.1.wasm'']"
    by (simp add: manager_resolve_def resolve_def resolve_from_def norm_step_def sample_defs)
  note c = reap_keeps_listed_entries[OF h1 h2 h3]
  have "(sample_url, ?e) \<in> set [(sample_url, ?e)]
      \<and> js_get ?e ''fileName'' = Inr (Some (JString ''json-0.1.wasm''))
      \<and> valid_name ''json-0.1.wasm''
      \<and> prefix (manager_resolve ?w ?m [''json-0.1.wasm'']) (cache_path @ [''json-0.1.wasm''])"
    unfolding r by (simp add: lock_entry_def valid_name_def)
  with c have "node_at (fs ?w') (cache_path @ [''json-0.1.wasm''])
      = node_at (fs ?w) (cache_path @ [''json-0.1.wasm''])"
    by blast
  then have kept: "node_at ?t (cache_path @ [''json-0.1.wasm''])
      = node_at (fs ?w) (cache_path @ [''json-0.1.wasm''])"
    by (simp add: sample_world_def)
  from h1 h2 h3 entries kept show ?thesis by simp
qed

section \<open>Persisting the lock file\<close>

text \<open>
  Claim C1 asks that a lock object whose entries come from downloads is read back as it
  was written. The load accepts a lock file that holds the empty array (the validation
  never asks whether the document is an object), and the array is the lock object of the
  run. A download then sets its entry as a named property of the array, which the reaper
  and \<^verbatim>\<open>Object.entries\<close> see; \<^verbatim>\<open>JSON.stringify\<close> prints the elements of an array
  only, so \<^verbatim>\<open>writeLockFile\<close> writes the empty array again and the next load has no
  entry.
\<close>

theorem array_lock_object_loses_entries:
  "new_manager sample_rt (sample_world (fs_locked ''[]'') [(sample_url, Response 200 ''asm1'')])
      ''.dprint-cache''
     = (Inr (sample_manager (JArray [] [])),
        (sample_world (fs_locked ''[]'') [(sample_url, Response 200 ''asm1'')])
          \<lparr>trace := [ReadFile (cache_path @ [LOCK_FILE_NAME])]\<rparr>)
   \<and> loadFormatterFromUrl sample_rt
        ((sample_world (fs_locked ''[]'') [(sample_url, Response 200 ''asm1'')])
          \<lparr>trace := [ReadFile (cache_path @ [LOCK_FILE_NAME])]\<rparr>)
        (sample_manager (JArray [] [])) sample_url
     = (Inr (Formatter 0 ''asm1''),
        (sample_world (fs_locked ''[]'' @ [(cache_path @ [''json-0.1.wasm''], File ''asm1'')])
                      [(sample_url, Response 200 ''asm1'')])
          \<lparr>heap_next := 1,
            trace := [ReadFile (cache_path @ [LOCK_FILE_NAME]), Fetch sample_url,
                      Mkdir cache_path, WriteFile (cache_path @ [''json-0.1.wasm'']) ''asm1'']\<rparr>,
        (sample_manager (JArray [] [(sample_url, lock_entry ''json-0.1.wasm'' ''sha512:asm1'')]))
          \<lparr>formatters := [(sample_url, Formatter 0 ''asm1'')]\<rparr>)
   \<and> Object_entries (JArray [] [(sample_url, lock_entry ''json-0.1.wasm'' ''sha512:asm1'')])
     = Inr [(sample_url, lock_entry ''json-0.1.wasm'' ''sha512:asm1'')]
   \<and> writeLockFile sample_rt
        ((sample_world (fs_locked ''[]'' @ [(cache_path @ [''json-0.1.wasm''], File ''asm1'')])
                      [(sample_url, Response 200 ''asm1'')])
          \<lparr>heap_next := 1,
            trace := [ReadFile (cache_path @ [LOCK_FILE_NAME]), Fetch sample_url,
                      Mkdir cache_path, WriteFile (cache_path @ [''json-0.1.wasm'']) ''asm1'']\<rparr>)
        ((sample_manager (JArray [] [(sample_url, lock_entry ''json-0.1.wasm'' ''sha512:asm1'')]))
          \<lparr>formatters := [(sample_url, Formatter 0 ''asm1'')]\<rparr>) None
     = (Inr (),
        (sample_world (fs_locked ''[]'' @ [(cache_path @ [''json-0.1.wasm''], File ''asm1'')])
                      [(sample_url, Response 200 ''asm1'')])
          \<lparr>heap_next := 1,
            trace := [ReadFile (cache_path @ [LOCK_FILE_NAME]), Fetch sample_url,
                      Mkdir cache_path, WriteFile (cache_path @ [''json-0.1.wasm'']) ''asm1'',
                      WriteFile (cache_path @ [LOCK_FILE_NAME]) ''[]'']\<rparr>)
   \<and> fst (getLockObject sample_rt
        ((sample_world (fs_locked ''[]'' @ [(cache_path @ [''json-0.1.wasm''], File ''asm1'')])
                      [(sample_url, Response 200 ''asm1'')])
          \<lparr>heap_next := 1,
            trace := [ReadFile (cache_path @ [LOCK_FILE_NAME]), Fetch sample_url,
                      Mkdir cache_path, WriteFile (cache_path @ [''json-0.1.wasm'']) ''asm1'',
                      WriteFile (cache_path @ [LOCK_FILE_NAME]) ''[]'']\<rparr>)
        (cache_path @ [LOCK_FILE_NAME])) = Inr (JArray [] [])
   \<and> Object_entries (JArray [] []) = Inr []"
proof -
  let ?net = "[(sample_url, Response 200 ''asm1'')]"
  let ?p = "cache_path @ [LOCK_FILE_NAME]"
  let ?t = "fs_locked ''[]'' @ [(cache_path @ [''json-0.1.wasm''], File ''asm1'')]"
  let ?e = "lock_entry ''json-0.1.wasm'' ''sha512:asm1''"
  let ?w1 = "(sample_world (fs_locked ''[]'') ?net)\<lparr>trace := [ReadFile ?p]\<rparr>"
  let ?w2 = "(sample_world ?t ?net)
          \<lparr>heap_next := 1,
            trace := [ReadFile ?p, Fetch sample_url,
                      Mkdir cache_path, WriteFile (cache_path @ [''json-0.1.wasm'']) ''asm1'']\<rparr>"
  let ?m2 = "(sample_manager (JArray [] [(sample_url, ?e)]))
          \<lparr>formatters := [(sample_url, Formatter 0 ''asm1'')]\<rparr>"
  let ?w3 = "(sample_world ?t ?net)
          \<lparr>heap_next := 1,
            trace := [ReadFile ?p, Fetch sample_url,
                      Mkdir cache_path, WriteFile (cache_path @ [''json-0.1.wasm'']) ''asm1'',
                      WriteFile ?p ''[]'']\<rparr>"
  have a: "new_manager sample_rt (sample_world (fs_locked ''[]'') ?net) ''.dprint-cache''
      = (Inr (sample_manager (JArray [] [])), ?w1)"
    by (simp add: new_manager_def getLockObject_def getLockObject_try_def isValidLockObject_def
        indexed_def run_defs sample_defs)
  have b: "loadFormatterFromUrl sample_rt ?w1 (sample_manager (JArray [] [])) sample_url
      = (Inr (Formatter 0 ''asm1''), ?w2, ?m2)"
    by (simp add: run_defs sample_defs)
  have c: "Object_entries (JArray [] [(sample_url, ?e)]) = Inr [(sample_url, ?e)]"
    by (simp add: indexed_def)
  have d: "writeLockFile sample_rt ?w2 ?m2 None = (Inr (), ?w3)"
    by (simp add: writeLockFile_def run_defs sample_defs)
  have e: "fst (getLockObject sample_rt ?w3 ?p) = Inr (JArray [] [])"
    by (simp add: getLockObject_def getLockObject_try_def isValidLockObject_def indexed_def
        run_defs sample_defs)
  have f: "Object_entries (JArray [] []) = Inr []" by (simp add: indexed_def)
  from a b c d e f show ?thesis by simp
qed

text \<open>
  For a lock object that is an object the round trip holds. All its entries are lock
  object entries, as the entries written after a download are. The lock file can be
  written and read. The text that is written, the output of \<^verbatim>\<open>JSON.stringify\<close> when
  no formatter is given and the output of the given formatter on it otherwise, comes
  back from encoding, decoding and \<^verbatim>\<open>JSON.parse\<close> as the object. Then
  \<^verbatim>\<open>writeLockFile\<close> succeeds, and \<^verbatim>\<open>_getLockObject\<close> on the written file returns the
  lock object with the same keys and values.
\<close>

lemma object_lock_round_trip:
  assumes "lockObject m = JObject kvs"
    and "list_all (\<lambda>(key, v). isLockObjectEntry v) kvs"
    and "write_error (fs w) (lockFilePath m) = None"
    and "lockFilePath m \<notin> set (unreadable w)"
    and "(jsonFormatter = None
            \<and> JSON_parse rt (TextDecoder_decode rt (TextEncoder_encode rt
                 (JSON_stringify rt (JObject kvs)))) = Some (JObject kvs))
       \<or> (\<exists>f rendered. jsonFormatter = Some f
            \<and> plugin_formatText rt (wasm f) (lockFilePath m) (JSON_stringify rt (JObject kvs))
                = Some rendered
            \<and> JSON_parse rt (TextDecoder_decode rt (TextEncoder_encode rt rendered))
                = Some (JObject kvs))"
  shows "\<exists>w1 w2. writeLockFile rt w m jsonFormatter = (Inr (), w1)
           \<and> getLockObject rt w1 (lockFilePath m) = (Inr (JObject kvs), w2)"
proof -
  let ?p = "lockFilePath m"
  from assms(5) obtain rendered where
    t: "(case jsonFormatter of None \<Rightarrow> Inr (JSON_stringify rt (lockObject m))
          | Some f \<Rightarrow> formatText rt f ?p (JSON_stringify rt (lockObject m))) = Inr rendered"
    and parse: "JSON_parse rt (TextDecoder_decode rt (TextEncoder_encode rt rendered))
                  = Some (JObject kvs)"
    using assms(1) by (auto simp: formatText_def)
  let ?b = "TextEncoder_encode rt rendered"
  let ?w1 = "emit (WriteFile ?p ?b) (w\<lparr>fs := write_fs (fs w) ?p ?b\<rparr>)"
  have wr: "writeLockFile rt w m jsonFormatter = (Inr (), ?w1)"
    using t assms(3) by (simp add: writeLockFile_def writeFile_def Let_def)
  have ne: "?p \<noteq> []" using assms(3) by (auto simp: write_error_def node_at_def)
  have "node_at (fs ?w1) ?p = Some (File ?b)"
    using assms(3) ne by (simp add: write_fs_def node_at_def update_conv')
  then have rd: "read_result ?w1 ?p = Inr ?b"
    using assms(4) by (simp add: read_result_def emit_def)
  have "isValidLockObject (JObject kvs) = Inr True"
    using assms(2) by (simp add: isValidLockObject_def)
  then have "getLockObject rt ?w1 ?p = (Inr (JObject kvs), emit (ReadFile ?p) ?w1)"
    using rd parse by (simp add: getLockObject_def getLockObject_try_def readFile_def)
  with wr show ?thesis by blast
qed

lemma sample_lock_round_trip:
  "\<exists>w1 w2. writeLockFile sample_rt (sample_world fs_empty []) (sample_manager sample_lock)
                  (Some (Formatter 0 ''asm1'')) = (Inr (), w1)
           \<and> getLockObject sample_rt w1 (cache_path @ [LOCK_FILE_NAME]) = (Inr sample_lock, w2)"
proof -
  let ?w = "sample_world fs_empty []"
  let ?m = "sample_manager sample_lock"
  let ?kvs = "[(sample_url, lock_entry ''json-0.1.wasm'' ''sha512:asm1'')]"
  have h1: "lockObject ?m = JObject ?kvs" by (simp add: sample_manager_def sample_lock_def)
  have h2: "list_all (\<lambda>(key, v). isLockObjectEntry v) ?kvs" by (simp add: lock_entry_valid)
  have p: "lockFilePath ?m = cache_path @ [LOCK_FILE_NAME]" by (simp add: sample_manager_def)
  have h3: "write_error (fs ?w) (lockFilePath ?m) = None"
    by (simp add: write_error_def node_at_def sample_defs)
  have h4: "lockFilePath ?m \<notin> set (unreadable ?w)" by (simp add: sample_world_def)
  have f: "plugin_formatText sample_rt ''asm1'' (cache_path @ [LOCK_FILE_NAME])
      (JSON_stringify sample_rt sample_lock) = Some (''{ sample lock }'' @ [CHR 0x0A])"
    by (simp add: sample_rt_def sample_stringify_def)
  have g: "JSON_parse sample_rt (TextDecoder_decode sample_rt (TextEncoder_encode sample_rt
             (''{ sample lock }'' @ [CHR 0x0A]))) = Some sample_lock"
    by (simp add: sample_rt_def sample_parse_def sample_decode_def)
  have h5: "(Some (Formatter 0 ''asm1'') = None
            \<and> JSON_parse sample_rt (TextDecoder_decode sample_rt (TextEncoder_encode sample_rt
                 (JSON_stringify sample_rt (JObject ?kvs)))) = Some (JObject ?kvs))
       \<or> (\<exists>f rendered. Some (Formatter 0 ''asm1'') = Some f
            \<and> plugin_formatText sample_rt (wasm f) (lockFilePath ?m)
                 (JSON_stringify sample_rt (JObject ?kvs)) = Some rendered
            \<and> JSON_parse sample_rt (TextDecoder_decode sample_rt (TextEncoder_encode sample_rt
                 rendered)) = Some (JObject ?kvs))"
    using f g unfolding p by (auto simp: sample_lock_def)
  from object_lock_round_trip[OF h1 h2 h3 h4 h5]
  show ?thesis unfolding p by (simp add: sample_lock_def)
qed

end
